theory Spec2Isabelle
  imports Complex_Main "HOL-Library.Sublist"
begin

section \<open>Python values and library functions used by \<^verbatim>\<open>examples/wrapper.py\<close>\<close>

text \<open>
  An exception object. \<^verbatim>\<open>except Exception\<close> catches the instances of \<^verbatim>\<open>Exception\<close>;
  \<^verbatim>\<open>KeyboardInterrupt\<close>, \<^verbatim>\<open>SystemExit\<close> and \<^verbatim>\<open>GeneratorExit\<close> derive from
  \<^verbatim>\<open>BaseException\<close> only and pass through such a handler.
\<close>

datatype exn = Exception string | BaseExceptionOnly string

text \<open>\<^verbatim>\<open>str(b)\<close> and \<^verbatim>\<open>str(i)\<close>, as an f-string formats a bool and an int.\<close>

definition str_bool :: "bool \<Rightarrow> string" where
  "str_bool b = (if b then ''True'' else ''False'')"

definition digit_char :: "nat \<Rightarrow> char" where
  "digit_char d = ''0123456789'' ! d"

fun str_nat :: "nat \<Rightarrow> string" where
  "str_nat n = (if n < 10 then [digit_char n] else str_nat (n div 10) @ [digit_char (n mod 10)])"

declare str_nat.simps [simp del]

definition str_int :: "int \<Rightarrow> string" where
  "str_int i = (if i < 0 then CHR ''-'' # str_nat (nat (- i)) else str_nat (nat i))"

text \<open>\<^verbatim>\<open>s.startswith(p)\<close>, \<^verbatim>\<open>s.endswith(p)\<close> and \<^verbatim>\<open>sub in s\<close> on strings.\<close>

fun startswith :: "string \<Rightarrow> string \<Rightarrow> bool" where
  "startswith s [] = True"
| "startswith [] (p # ps) = False"
| "startswith (c # cs) (p # ps) = (c = p \<and> startswith cs ps)"

definition endswith :: "string \<Rightarrow> string \<Rightarrow> bool" where
  "endswith s p = startswith (rev s) (rev p)"

fun str_contains :: "string \<Rightarrow> string \<Rightarrow> bool" where
  "str_contains sub [] = (sub = [])"
| "str_contains sub (c # cs) = (startswith (c # cs) sub \<or> str_contains sub cs)"

text \<open>\<^verbatim>\<open>os.path.join\<close> and \<^verbatim>\<open>os.path.dirname\<close> of \<^verbatim>\<open>posixpath\<close>.\<close>

definition path_join2 :: "string \<Rightarrow> string \<Rightarrow> string" where
  "path_join2 path b =
     (if startswith b ''/'' then b
      else if path = [] \<or> endswith path ''/'' then path @ b
      else path @ ''/'' @ b)"

definition path_join :: "string \<Rightarrow> string list \<Rightarrow> string" where
  "path_join a p = foldl path_join2 a p"

definition dirname :: "string \<Rightarrow> string" where
  "dirname p =
     (let head = rev (dropWhile (\<lambda>c. c \<noteq> CHR ''/'') (rev p)) in
      if head \<noteq> [] \<and> head \<noteq> replicate (length head) (CHR ''/'')
      then rev (dropWhile (\<lambda>c. c = CHR ''/'') (rev head))
      else head)"

section \<open>Objects of the external libraries\<close>

text \<open>
  The inference library, the compiler and the image library are not part of the wrapper.
  Their objects are symbolic terms: a value records which external operation produced it
  and from what.
\<close>

datatype unet_module =
    PipeUNet
  | UNet2DConditionModelEngine string
  | DataParallel unet_module "int list"

datatype vae_module =
    PipeVAE
  | AutoencoderTiny string
  | AutoencoderKLEngine string string

text \<open>
  The object bound to \<^verbatim>\<open>stream.vae\<close>: the module, whether its \<^verbatim>\<open>forward\<close> attribute
  is currently overridden by \<^verbatim>\<open>decode\<close> (lines 316 and 330), and the modules whose
  \<^verbatim>\<open>config\<close> and \<^verbatim>\<open>dtype\<close> it reports (lines 362 and 363).
\<close>

record vae_obj =
  vae_module :: vae_module
  forward_is_decode :: bool
  config_from :: vae_module
  dtype_from :: vae_module

definition torch_vae :: "vae_module \<Rightarrow> vae_obj" where
  "torch_vae m = \<lparr>vae_module = m, forward_is_decode = False, config_from = m, dtype_from = m\<rparr>"

text \<open>
  The \<^verbatim>\<open>StreamDiffusion\<close> object, as far as the wrapper assigns to it;
  \<open>stable_fast\<close> holds for the object that \<^verbatim>\<open>accelerate_with_stable_fast\<close> returned.
\<close>

record stream_obj =
  unet :: unet_module
  vae :: vae_obj
  stable_fast :: bool

definition new_stream :: stream_obj where
  "new_stream = \<lparr>unet = PipeUNet, vae = torch_vae PipeVAE, stable_fast = False\<rparr>"

datatype pil_image =
    UserImage nat
  | Opened string
  | Converted string pil_image
  | Resized int int pil_image

datatype pyval =
    Str string
  | Pil pil_image
  | Tensor tensor
  | NoneV
and tensor =
    UserTensor nat
  | Preprocessed pyval int int
  | MovedTo string string tensor

datatype out_tensor =
    StreamCallOut pyval
  | Txt2ImgOut
  | Txt2ImgBatchOut int
  | Cpu out_tensor

datatype out_image = PostImage out_tensor nat

datatype skip_prob = SkipProb pyval

datatype retval =
    SingleImage out_image
  | ImageList "out_image list"
  | Tuple2 retval skip_prob

datatype artifact = UnetEngine | VaeDecoderEngine | VaeEncoderEngine

text \<open>One constructor for each call the wrapper makes into a library, with its arguments.\<close>

datatype event =
    FromSingleFile string
  | FromPretrained string
  | PipeTo string string
  | NewStreamDiffusion "int list" string int int bool int
  | LoadLcmLora "string option"
  | FuseLora
  | TinyFromPretrained string
  | VaeTo
  | EnableXformers
  | ImportTensorrt
  | Makedirs artifact string
  | NewModel artifact int int
  | NewTorchVAEEncoder
  | Compile artifact string string string int
  | NewCudaStream
  | NewUNetEngine string
  | NewVAEEngine string string
  | GcCollect
  | EmptyCache
  | ImportSfast
  | AccelerateSfast
  | PrintExc exn
  | Print string
  | Prepare string int "int option"
  | NewDataParallel "int list"
  | EnableSimilarImageFilter real
  | Txt2Img
  | Txt2ImgBatch int
  | ImageOpen string
  | ImageConvert pil_image string
  | ImageResize pil_image int int
  | ProcessorPreprocess pyval int int
  | TensorTo tensor string string
  | StreamCall pyval
  | TensorCpu out_tensor
  | PostprocessImage out_tensor string

text \<open>
  The world outside the wrapper: which library calls raise and what they raise, what
  \<^verbatim>\<open>os.path.exists\<close> answers for a path at the moment it is asked, and how many images
  \<^verbatim>\<open>postprocess_image\<close> decodes from a tensor.
\<close>

record world =
  raises :: "event \<Rightarrow> exn option"
  path_exists :: "string \<Rightarrow> bool"
  n_images :: "out_tensor \<Rightarrow> nat"

section \<open>Statements: state, trace of library calls, exceptions\<close>

record tstate =
  trace :: "event list"

record lstate = tstate +
  stream :: stream_obj

type_synonym ('a, 's) prog = "'s \<Rightarrow> (exn + 'a) \<times> 's"

definition ret :: "'a \<Rightarrow> ('a, 's) prog" where
  "ret v s = (Inr v, s)"

definition raise :: "exn \<Rightarrow> ('a, 's) prog" where
  "raise e s = (Inl e, s)"

definition bind_prog :: "('a, 's) prog \<Rightarrow> ('a \<Rightarrow> ('b, 's) prog) \<Rightarrow> ('b, 's) prog" where
  "bind_prog m f s = (case m s of (Inl e, s') \<Rightarrow> (Inl e, s') | (Inr v, s') \<Rightarrow> f v s')"

text \<open>A library call is recorded, then returns or raises as the world says.\<close>

definition call :: "world \<Rightarrow> event \<Rightarrow> (unit, 'a tstate_scheme) prog" where
  "call w e s =
     (case raises w e of
        None \<Rightarrow> (Inr (), s\<lparr>trace := trace s @ [e]\<rparr>)
      | Some x \<Rightarrow> (Inl x, s\<lparr>trace := trace s @ [e]\<rparr>))"

text \<open>Output on the console (\<^verbatim>\<open>print\<close>, \<^verbatim>\<open>traceback.print_exc\<close>) is recorded and returns.\<close>

definition emit :: "event \<Rightarrow> (unit, 'a tstate_scheme) prog" where
  "emit e s = (Inr (), s\<lparr>trace := trace s @ [e]\<rparr>)"

definition assign :: "(stream_obj \<Rightarrow> stream_obj) \<Rightarrow> (unit, 'a lstate_scheme) prog" where
  "assign f s = (Inr (), s\<lparr>stream := f (stream s)\<rparr>)"

fun block :: "(unit, 's) prog list \<Rightarrow> (unit, 's) prog" where
  "block [] s = (Inr (), s)"
| "block (c # cs) s = (case c s of (Inl e, s') \<Rightarrow> (Inl e, s') | (Inr u, s') \<Rightarrow> block cs s')"

definition py_if :: "bool \<Rightarrow> (unit, 's) prog list \<Rightarrow> (unit, 's) prog" where
  "py_if b cs = (if b then block cs else block [])"

text \<open>\<^verbatim>\<open>try: body  except Exception: handler\<close>.\<close>

definition try_except_Exception ::
    "(unit, 's) prog \<Rightarrow> (exn \<Rightarrow> (unit, 's) prog) \<Rightarrow> (unit, 's) prog" where
  "try_except_Exception body handler s =
     (case body s of
        (Inl (Exception m), s') \<Rightarrow> handler (Exception m) s'
      | (Inl (BaseExceptionOnly m), s') \<Rightarrow> (Inl (BaseExceptionOnly m), s')
      | (Inr u, s') \<Rightarrow> (Inr u, s'))"

section \<open>The wrapper\<close>

text \<open>The attributes \<^verbatim>\<open>__init__\<close> sets in lines 41 to 47, and then \<^verbatim>\<open>self.stream\<close>.\<close>

record wrapper_fields =
  device :: string
  dtype :: string
  width :: int
  height :: int
  mode :: string
  frame_buffer_size :: int
  batch_size :: int

record wrapper = wrapper_fields +
  wstream :: stream_obj

text \<open>The keyword arguments of \<^verbatim>\<open>_load_model\<close>, and the further ones of \<^verbatim>\<open>__init__\<close>.\<close>

record load_args =
  model_id :: string
  t_index_list :: "int list"
  lcm_lora_id :: "string option"
  vae_id :: "string option"
  acceleration :: string
  warmup :: int
  is_drawing :: bool
  use_lcm_lora :: bool
  use_tiny_vae :: bool

record init_args = load_args +
  arg_mode :: string
  arg_device :: string
  arg_dtype :: string
  arg_frame_buffer_size :: int
  arg_width :: int
  arg_height :: int
  device_ids :: "int list option"
  enable_similar_image_filter :: bool
  similar_image_filter_threshold :: real

subsection \<open>\<^verbatim>\<open>_load_model\<close>, lines 229 to 256: pipeline, LCM-LoRA, tiny VAE\<close>

definition build_pipeline ::
    "world \<Rightarrow> 'a wrapper_fields_scheme \<Rightarrow> 'b load_args_scheme \<Rightarrow> (unit, 'c lstate_scheme) prog" where
  "build_pipeline w self a =
     block [
       (if endswith (model_id a) ''.safetensors''
        then block [call w (FromSingleFile (model_id a)), call w (PipeTo (device self) (dtype self))]
        else block [call w (FromPretrained (model_id a)), call w (PipeTo (device self) (dtype self))]),
       call w (NewStreamDiffusion (t_index_list a) (dtype self) (width self) (height self)
                 (is_drawing a) (frame_buffer_size self)),
       assign (\<lambda>_. new_stream)]"

definition fuse_lcm_lora :: "world \<Rightarrow> 'b load_args_scheme \<Rightarrow> (unit, 'c lstate_scheme) prog" where
  "fuse_lcm_lora w a =
     py_if (\<not> str_contains ''turbo'' (model_id a)) [
       py_if (use_lcm_lora a) [
         (case lcm_lora_id a of
            Some l \<Rightarrow> call w (LoadLcmLora (Some l))
          | None \<Rightarrow> call w (LoadLcmLora None)),
         call w FuseLora]]"

definition replace_vae :: "world \<Rightarrow> 'b load_args_scheme \<Rightarrow> (unit, 'c lstate_scheme) prog" where
  "replace_vae w a =
     py_if (use_tiny_vae a) [
       (case vae_id a of
          Some v \<Rightarrow> block [call w (TinyFromPretrained v), call w VaeTo,
                           assign (\<lambda>st. st\<lparr>vae := torch_vae (AutoencoderTiny v)\<rparr>)]
        | None \<Rightarrow> block [call w (TinyFromPretrained ''madebyollin/taesd''), call w VaeTo,
                         assign (\<lambda>st. st\<lparr>vae := torch_vae (AutoencoderTiny ''madebyollin/taesd'')\<rparr>)])]"

subsection \<open>Lines 266 to 293: engine paths\<close>

definition create_prefix ::
    "'a wrapper_fields_scheme \<Rightarrow> 'b load_args_scheme \<Rightarrow> int \<Rightarrow> int \<Rightarrow> string" where
  "create_prefix self a max_batch_size min_batch_size =
     model_id a @ ''--lcm_lora-'' @ str_bool (use_tiny_vae a)
       @ ''--tiny_vae-'' @ str_bool (use_lcm_lora a)
       @ ''--max_batch-'' @ str_int max_batch_size
       @ ''--min_batch-'' @ str_int min_batch_size
       @ ''--mode-'' @ mode self"

definition engine_dir :: string where
  "engine_dir = path_join ''engines'' []"

definition vae_batch :: "'a wrapper_fields_scheme \<Rightarrow> int" where
  "vae_batch self = (if mode self = ''txt2img'' then batch_size self else 1)"

definition unet_path :: "'a wrapper_fields_scheme \<Rightarrow> 'b load_args_scheme \<Rightarrow> string" where
  "unet_path self a =
     path_join engine_dir [create_prefix self a (batch_size self) (batch_size self), ''unet.engine'']"

definition vae_encoder_path :: "'a wrapper_fields_scheme \<Rightarrow> 'b load_args_scheme \<Rightarrow> string" where
  "vae_encoder_path self a =
     path_join engine_dir [create_prefix self a (vae_batch self) (vae_batch self), ''vae_encoder.engine'']"

definition vae_decoder_path :: "'a wrapper_fields_scheme \<Rightarrow> 'b load_args_scheme \<Rightarrow> string" where
  "vae_decoder_path self a =
     path_join engine_dir [create_prefix self a (vae_batch self) (vae_batch self), ''vae_decoder.engine'']"

subsection \<open>Lines 295 to 347: one block for each TensorRT engine\<close>

definition build_unet_engine ::
    "world \<Rightarrow> 'a wrapper_fields_scheme \<Rightarrow> 'b load_args_scheme \<Rightarrow> (unit, 'c lstate_scheme) prog" where
  "build_unet_engine w self a =
     py_if (\<not> path_exists w (unet_path self a)) [
       call w (Makedirs UnetEngine (dirname (unet_path self a))),
       call w (NewModel UnetEngine (batch_size self) (batch_size self)),
       call w (Compile UnetEngine (unet_path self a @ ''.onnx'') (unet_path self a @ ''.opt.onnx'')
                 (unet_path self a) (batch_size self))]"

definition build_vae_decoder_engine ::
    "world \<Rightarrow> 'a wrapper_fields_scheme \<Rightarrow> 'b load_args_scheme \<Rightarrow> (unit, 'c lstate_scheme) prog" where
  "build_vae_decoder_engine w self a =
     py_if (\<not> path_exists w (vae_decoder_path self a)) [
       call w (Makedirs VaeDecoderEngine (dirname (vae_decoder_path self a))),
       assign (\<lambda>st. st\<lparr>vae := (vae st)\<lparr>forward_is_decode := True\<rparr>\<rparr>),
       call w (NewModel VaeDecoderEngine (vae_batch self) (vae_batch self)),
       call w (Compile VaeDecoderEngine (vae_decoder_path self a @ ''.onnx'')
                 (vae_decoder_path self a @ ''.opt.onnx'') (vae_decoder_path self a) (vae_batch self)),
       assign (\<lambda>st. st\<lparr>vae := (vae st)\<lparr>forward_is_decode := False\<rparr>\<rparr>)]"

definition build_vae_encoder_engine ::
    "world \<Rightarrow> 'a wrapper_fields_scheme \<Rightarrow> 'b load_args_scheme \<Rightarrow> (unit, 'c lstate_scheme) prog" where
  "build_vae_encoder_engine w self a =
     py_if (\<not> path_exists w (vae_encoder_path self a)) [
       call w (Makedirs VaeEncoderEngine (dirname (vae_encoder_path self a))),
       call w NewTorchVAEEncoder,
       call w (NewModel VaeEncoderEngine (vae_batch self) (vae_batch self)),
       call w (Compile VaeEncoderEngine (vae_encoder_path self a @ ''.onnx'')
                 (vae_encoder_path self a @ ''.opt.onnx'') (vae_encoder_path self a) (vae_batch self))]"

subsection \<open>Lines 349 to 368: the engines replace the torch modules\<close>

definition reading :: "('s \<Rightarrow> ('a, 's) prog) \<Rightarrow> ('a, 's) prog" where
  "reading f s = f s s"

definition swap_engines ::
    "world \<Rightarrow> 'a wrapper_fields_scheme \<Rightarrow> 'b load_args_scheme \<Rightarrow> (unit, 'c lstate_scheme) prog" where
  "swap_engines w self a =
     block [
       call w NewCudaStream,
       reading (\<lambda>s0. block [
         call w (NewUNetEngine (unet_path self a)),
         assign (\<lambda>st. st\<lparr>unet := UNet2DConditionModelEngine (unet_path self a)\<rparr>),
         call w (NewVAEEngine (vae_encoder_path self a) (vae_decoder_path self a)),
         assign (\<lambda>st. st\<lparr>vae := torch_vae
                   (AutoencoderKLEngine (vae_encoder_path self a) (vae_decoder_path self a))\<rparr>),
         assign (\<lambda>st. st\<lparr>vae := (vae st)\<lparr>config_from := config_from (vae (stream s0))\<rparr>\<rparr>),
         assign (\<lambda>st. st\<lparr>vae := (vae st)\<lparr>dtype_from := dtype_from (vae (stream s0))\<rparr>\<rparr>),
         call w GcCollect,
         call w EmptyCache,
         emit (Print ''TensorRT acceleration enabled.'')])]"

subsection \<open>Lines 258 to 384: the \<^verbatim>\<open>try\<close> block, its handler, \<^verbatim>\<open>stream.prepare\<close>\<close>

definition accelerate ::
    "world \<Rightarrow> 'a wrapper_fields_scheme \<Rightarrow> 'b load_args_scheme \<Rightarrow> (unit, 'c lstate_scheme) prog" where
  "accelerate w self a =
     block [
       py_if (acceleration a = ''xformers'') [call w EnableXformers],
       py_if (acceleration a = ''tensorrt'') [
         call w ImportTensorrt,
         build_unet_engine w self a,
         build_vae_decoder_engine w self a,
         build_vae_encoder_engine w self a,
         swap_engines w self a],
       py_if (acceleration a = ''sfast'') [
         call w ImportSfast,
         call w AccelerateSfast,
         assign (\<lambda>st. st\<lparr>stable_fast := True\<rparr>),
         emit (Print ''StableFast acceleration enabled.'')]]"

definition fallback :: "exn \<Rightarrow> (unit, 'c lstate_scheme) prog" where
  "fallback e =
     block [emit (PrintExc e), emit (Print ''Acceleration has failed. Falling back to normal mode.'')]"

definition load_steps ::
    "world \<Rightarrow> 'a wrapper_fields_scheme \<Rightarrow> 'b load_args_scheme \<Rightarrow> (unit, 'c lstate_scheme) prog" where
  "load_steps w self a =
     block [
       build_pipeline w self a,
       fuse_lcm_lora w a,
       replace_vae w a,
       try_except_Exception (accelerate w self a) fallback,
       call w (Prepare [] 50 (Some 2))]"

definition load_model ::
    "world \<Rightarrow> 'a wrapper_fields_scheme \<Rightarrow> 'b load_args_scheme \<Rightarrow> (stream_obj, 'c lstate_scheme) prog" where
  "load_model w self a =
     bind_prog (load_steps w self a) (\<lambda>_. reading (\<lambda>s. ret (stream s)))"

subsection \<open>\<^verbatim>\<open>__init__\<close>\<close>

definition fresh :: lstate where
  "fresh = \<lparr>trace = [], stream = new_stream\<rparr>"

definition init_fields :: "init_args \<Rightarrow> wrapper_fields" where
  "init_fields a =
     \<lparr>device = arg_device a, dtype = arg_dtype a, width = arg_width a, height = arg_height a,
      mode = arg_mode a, frame_buffer_size = arg_frame_buffer_size a,
      batch_size = int (length (t_index_list a)) * arg_frame_buffer_size a\<rparr>"

definition init_steps :: "world \<Rightarrow> init_args \<Rightarrow> (unit, lstate) prog" where
  "init_steps w a =
     block [
       bind_prog (load_model w (init_fields a) a) (\<lambda>st. assign (\<lambda>_. st)),
       (case device_ids a of
          None \<Rightarrow> block []
        | Some ids \<Rightarrow> block [call w (NewDataParallel ids),
                             assign (\<lambda>st. st\<lparr>unet := DataParallel (unet st) ids\<rparr>)]),
       py_if (enable_similar_image_filter a)
         [call w (EnableSimilarImageFilter (similar_image_filter_threshold a))]]"

definition init :: "world \<Rightarrow> init_args \<Rightarrow> (exn + wrapper) \<times> event list" where
  "init w a =
     (case init_steps w a fresh of
        (Inl e, s) \<Rightarrow> (Inl e, trace s)
      | (Inr u, s) \<Rightarrow>
          (Inr \<lparr>device = arg_device a, dtype = arg_dtype a, width = arg_width a,
                height = arg_height a, mode = arg_mode a,
                frame_buffer_size = arg_frame_buffer_size a,
                batch_size = int (length (t_index_list a)) * arg_frame_buffer_size a,
                wstream = stream s\<rparr>, trace s))"

subsection \<open>The methods of the constructed wrapper\<close>

record wstate = tstate +
  obj :: wrapper

definition prepare :: "world \<Rightarrow> string \<Rightarrow> int \<Rightarrow> (unit, wstate) prog" where
  "prepare w prompt num_inference_steps = call w (Prepare prompt num_inference_steps None)"

definition decoded :: "world \<Rightarrow> out_tensor \<Rightarrow> out_image list" where
  "decoded w t = map (PostImage t) [0..<n_images w t]"

definition postprocess_image :: "world \<Rightarrow> out_tensor \<Rightarrow> (retval, wstate) prog" where
  "postprocess_image w image_tensor =
     reading (\<lambda>s.
       if frame_buffer_size (obj s) > 1
       then bind_prog (block [call w (TensorCpu image_tensor),
                              call w (PostprocessImage (Cpu image_tensor) ''pil'')])
              (\<lambda>_. ret (ImageList (decoded w (Cpu image_tensor))))
       else bind_prog (block [call w (TensorCpu image_tensor),
                              call w (PostprocessImage (Cpu image_tensor) ''pil'')])
              (\<lambda>_. case decoded w (Cpu image_tensor) of
                      [] \<Rightarrow> raise (Exception ''IndexError'')
                    | x # xs \<Rightarrow> ret (SingleImage x)))"

definition txt2img :: "world \<Rightarrow> (retval, wstate) prog" where
  "txt2img w =
     reading (\<lambda>s.
       bind_prog
         (if frame_buffer_size (obj s) > 1
          then bind_prog (call w (Txt2ImgBatch (batch_size (obj s))))
                 (\<lambda>_. ret (Txt2ImgBatchOut (batch_size (obj s))))
          else bind_prog (call w Txt2Img) (\<lambda>_. ret Txt2ImgOut))
         (postprocess_image w))"

definition preprocess_image :: "world \<Rightarrow> pyval \<Rightarrow> (tensor, wstate) prog" where
  "preprocess_image w image0 =
     reading (\<lambda>s.
       bind_prog
         (case image0 of
            Str p \<Rightarrow>
              bind_prog (block [call w (ImageOpen p),
                                call w (ImageConvert (Opened p) ''RGB''),
                                call w (ImageResize (Converted ''RGB'' (Opened p))
                                          (width (obj s)) (height (obj s)))])
                (\<lambda>_. ret (Pil (Resized (width (obj s)) (height (obj s))
                                  (Converted ''RGB'' (Opened p)))))
          | Pil i \<Rightarrow> ret image0
          | Tensor t \<Rightarrow> ret image0
          | NoneV \<Rightarrow> ret image0)
         (\<lambda>image1.
            bind_prog
              (case image1 of
                 Pil i \<Rightarrow>
                   bind_prog (block [call w (ImageConvert i ''RGB''),
                                     call w (ImageResize (Converted ''RGB'' i)
                                               (width (obj s)) (height (obj s)))])
                     (\<lambda>_. ret (Pil (Resized (width (obj s)) (height (obj s))
                                       (Converted ''RGB'' i))))
               | Str p \<Rightarrow> ret image1
               | Tensor t \<Rightarrow> ret image1
               | NoneV \<Rightarrow> ret image1)
              (\<lambda>image2.
                 bind_prog
                   (block [call w (ProcessorPreprocess image2 (height (obj s)) (width (obj s))),
                           call w (TensorTo (Preprocessed image2 (height (obj s)) (width (obj s)))
                                     (device (obj s)) (dtype (obj s)))])
                   (\<lambda>_. ret (MovedTo (device (obj s)) (dtype (obj s))
                               (Preprocessed image2 (height (obj s)) (width (obj s))))))))"

definition img2img :: "world \<Rightarrow> pyval \<Rightarrow> (retval, wstate) prog" where
  "img2img w image0 =
     bind_prog
       (case image0 of
          Str p \<Rightarrow> bind_prog (preprocess_image w image0) (\<lambda>t. ret (Tensor t))
        | Pil i \<Rightarrow> bind_prog (preprocess_image w image0) (\<lambda>t. ret (Tensor t))
        | Tensor t \<Rightarrow> ret image0
        | NoneV \<Rightarrow> ret image0)
       (\<lambda>image1.
          bind_prog (call w (StreamCall image1))
            (\<lambda>_. bind_prog (postprocess_image w (StreamCallOut image1))
                   (\<lambda>r. ret (Tuple2 r (SkipProb image1)))))"

definition call_wrapper :: "world \<Rightarrow> pyval \<Rightarrow> (retval, wstate) prog" where
  "call_wrapper w image0 =
     reading (\<lambda>s. if mode (obj s) = ''img2img'' then img2img w image0 else txt2img w)"

section \<open>Properties of traces\<close>

text \<open>
  The step of the construction sequence a library call belongs to: 1 pipeline and stream,
  2 LCM-LoRA, 3 tiny VAE, 4 acceleration and its fallback messages, 5 \<^verbatim>\<open>stream.prepare\<close>,
  6 the rest of \<^verbatim>\<open>__init__\<close>, 7 calls made by the methods.
\<close>

fun phase :: "event \<Rightarrow> nat" where
  "phase (FromSingleFile m) = 1"
| "phase (FromPretrained m) = 1"
| "phase (PipeTo d t) = 1"
| "phase (NewStreamDiffusion ts t x y b n) = 1"
| "phase (LoadLcmLora l) = 2"
| "phase FuseLora = 2"
| "phase (TinyFromPretrained v) = 3"
| "phase VaeTo = 3"
| "phase EnableXformers = 4"
| "phase ImportTensorrt = 4"
| "phase (Makedirs k d) = 4"
| "phase (NewModel k x y) = 4"
| "phase NewTorchVAEEncoder = 4"
| "phase (Compile k x y z n) = 4"
| "phase NewCudaStream = 4"
| "phase (NewUNetEngine p) = 4"
| "phase (NewVAEEngine p q) = 4"
| "phase GcCollect = 4"
| "phase EmptyCache = 4"
| "phase ImportSfast = 4"
| "phase AccelerateSfast = 4"
| "phase (PrintExc x) = 4"
| "phase (Print m) = 4"
| "phase (Prepare p n g) = 5"
| "phase (NewDataParallel ids) = 6"
| "phase (EnableSimilarImageFilter r) = 6"
| "phase Txt2Img = 7"
| "phase (Txt2ImgBatch n) = 7"
| "phase (ImageOpen p) = 7"
| "phase (ImageConvert i m) = 7"
| "phase (ImageResize i x y) = 7"
| "phase (ProcessorPreprocess v x y) = 7"
| "phase (TensorTo t d ty) = 7"
| "phase (StreamCall v) = 7"
| "phase (TensorCpu t) = 7"
| "phase (PostprocessImage t m) = 7"

text \<open>
  \<open>runs c Q\<close>: from every state, \<open>c\<close> only appends to the trace, and its outcome and
  the calls it appended satisfy \<open>Q\<close>.
\<close>

definition runs :: "('a, 'z tstate_scheme) prog \<Rightarrow> ((exn + 'a) \<Rightarrow> event list \<Rightarrow> bool) \<Rightarrow> bool" where
  "runs c Q = (\<forall>s. \<exists>es. trace (snd (c s)) = trace s @ es \<and> Q (fst (c s)) es)"

definition emits :: "(event list \<Rightarrow> bool) \<Rightarrow> ('a, 'z tstate_scheme) prog \<Rightarrow> bool" where
  "emits Q c = runs c (\<lambda>r es. Q es)"

definition closed :: "(event list \<Rightarrow> bool) \<Rightarrow> bool" where
  "closed Q = (Q [] \<and> (\<forall>xs ys. Q xs \<longrightarrow> Q ys \<longrightarrow> Q (xs @ ys)))"

definition phased :: "nat \<Rightarrow> nat \<Rightarrow> ('a, 'z tstate_scheme) prog \<Rightarrow> bool" where
  "phased lo hi c =
     emits (\<lambda>es. sorted (map phase es) \<and> (\<forall>e\<in>set es. lo \<le> phase e \<and> phase e \<le> hi)) c"

text \<open>
  The path, the batch size and the compilation call of each of the three engines, and the
  two properties of a trace that claim C6 is about.
\<close>

definition engine_path :: "artifact \<Rightarrow> 'a wrapper_fields_scheme \<Rightarrow> 'b load_args_scheme \<Rightarrow> string" where
  "engine_path art self a =
     (case art of
        UnetEngine \<Rightarrow> unet_path self a
      | VaeDecoderEngine \<Rightarrow> vae_decoder_path self a
      | VaeEncoderEngine \<Rightarrow> vae_encoder_path self a)"

definition engine_batch :: "artifact \<Rightarrow> 'a wrapper_fields_scheme \<Rightarrow> int" where
  "engine_batch art self =
     (case art of
        UnetEngine \<Rightarrow> batch_size self
      | VaeDecoderEngine \<Rightarrow> vae_batch self
      | VaeEncoderEngine \<Rightarrow> vae_batch self)"

definition compile_call :: "artifact \<Rightarrow> 'a wrapper_fields_scheme \<Rightarrow> 'b load_args_scheme \<Rightarrow> event" where
  "compile_call art self a =
     Compile art (engine_path art self a @ ''.onnx'') (engine_path art self a @ ''.opt.onnx'')
       (engine_path art self a) (engine_batch art self)"

definition guarded :: "world \<Rightarrow> 'a wrapper_fields_scheme \<Rightarrow> 'b load_args_scheme \<Rightarrow> event list \<Rightarrow> bool" where
  "guarded w self a es =
     (\<forall>art x y z n. Compile art x y z n \<in> set es \<longrightarrow>
        Compile art x y z n = compile_call art self a
        \<and> \<not> path_exists w (engine_path art self a)
        \<and> Makedirs art (dirname (engine_path art self a))
            \<in> set (takeWhile (\<lambda>e. e \<noteq> compile_call art self a) es))"

definition trt_enabled :: event where
  "trt_enabled = Print ''TensorRT acceleration enabled.''"

definition complete :: "world \<Rightarrow> 'a wrapper_fields_scheme \<Rightarrow> 'b load_args_scheme \<Rightarrow> artifact list \<Rightarrow> event list \<Rightarrow> bool" where
  "complete w self a arts es =
     (trt_enabled \<in> set es \<longrightarrow>
        (\<forall>art\<in>set arts. \<not> path_exists w (engine_path art self a) \<longrightarrow> compile_call art self a \<in> set es)
        \<and> NewUNetEngine (unet_path self a) \<in> set es
        \<and> NewVAEEngine (vae_encoder_path self a) (vae_decoder_path self a) \<in> set es)"

text \<open>
  Concrete inputs at which the theorems below are applied: a world in which no call raises
  and no engine is cached, and the arguments of a construction with TensorRT acceleration.
\<close>

definition quiet_world :: world where
  "quiet_world = \<lparr>raises = (\<lambda>e. None), path_exists = (\<lambda>p. False), n_images = (\<lambda>t. 1)\<rparr>"

definition example_args :: init_args where
  "example_args =
     \<lparr>model_id = ''sd'', t_index_list = [32, 45], lcm_lora_id = None, vae_id = None,
      acceleration = ''tensorrt'', warmup = 10, is_drawing = True, use_lcm_lora = True,
      use_tiny_vae = True, arg_mode = ''img2img'', arg_device = ''cuda'', arg_dtype = ''float16'',
      arg_frame_buffer_size = 1, arg_width = 512, arg_height = 512, device_ids = None,
      enable_similar_image_filter = False, similar_image_filter_threshold = 0\<rparr>"

text \<open>The condition under which the LCM-LoRA adapter is loaded and fused (lines 244 and 245).\<close>

definition lora_wanted :: "'b load_args_scheme \<Rightarrow> bool" where
  "lora_wanted a = (use_lcm_lora a \<and> \<not> str_contains ''turbo'' (model_id a))"

definition lora_rule :: "'b load_args_scheme \<Rightarrow> event list \<Rightarrow> bool" where
  "lora_rule a es =
     (((\<exists>l. LoadLcmLora l \<in> set es) \<or> FuseLora \<in> set es \<longrightarrow> lora_wanted a)
      \<and> (\<forall>l. LoadLcmLora l \<in> set es \<longrightarrow> l = lcm_lora_id a)
      \<and> (Prepare [] 50 (Some 2) \<in> set es \<longrightarrow> lora_wanted a \<longrightarrow>
            LoadLcmLora (lcm_lora_id a) \<in> set es \<and> FuseLora \<in> set es))"

definition fuse_spec :: "'b load_args_scheme \<Rightarrow> (exn + unit) \<Rightarrow> event list \<Rightarrow> bool" where
  "fuse_spec a r es =
     ((\<forall>e\<in>set es. phase e = 2)
      \<and> (es \<noteq> [] \<longrightarrow> lora_wanted a)
      \<and> (\<forall>l. LoadLcmLora l \<in> set es \<longrightarrow> l = lcm_lora_id a)
      \<and> (r = Inr () \<longrightarrow> lora_wanted a \<longrightarrow> es = [LoadLcmLora (lcm_lora_id a), FuseLora]))"

text \<open>
  Worlds in which the acceleration setup fails: the engine compilation raises an instance
  of \<^verbatim>\<open>Exception\<close>, or a \<^verbatim>\<open>KeyboardInterrupt\<close>, or the constructor of the cached VAE engine
  raises; and the states of \<^verbatim>\<open>_load_model\<close> before the \<^verbatim>\<open>try\<close> block and at the failure.
\<close>

definition failing_world :: world where
  "failing_world =
     \<lparr>raises = (\<lambda>e. case e of Compile k x y z n \<Rightarrow> Some (Exception ''engine build failed'') | _ \<Rightarrow> None),
      path_exists = (\<lambda>p. False), n_images = (\<lambda>t. 1)\<rparr>"

definition interrupt_world :: world where
  "interrupt_world =
     \<lparr>raises = (\<lambda>e. case e of Compile k x y z n \<Rightarrow> Some (BaseExceptionOnly ''KeyboardInterrupt'') | _ \<Rightarrow> None),
      path_exists = (\<lambda>p. False), n_images = (\<lambda>t. 1)\<rparr>"

definition broken_vae_engine_world :: world where
  "broken_vae_engine_world =
     \<lparr>raises = (\<lambda>e. case e of NewVAEEngine p q \<Rightarrow> Some (Exception ''engine load failed'') | _ \<Rightarrow> None),
      path_exists = (\<lambda>p. True), n_images = (\<lambda>t. 1)\<rparr>"

definition ready_trace :: "event list" where
  "ready_trace =
     [FromPretrained ''sd'', PipeTo ''cuda'' ''float16'',
      NewStreamDiffusion [32, 45] ''float16'' 512 512 True 1,
      LoadLcmLora None, FuseLora, TinyFromPretrained ''madebyollin/taesd'', VaeTo]"

definition ready_state :: lstate where
  "ready_state =
     \<lparr>trace = ready_trace,
      stream = \<lparr>unet = PipeUNet, vae = torch_vae (AutoencoderTiny ''madebyollin/taesd''),
                stable_fast = False\<rparr>\<rparr>"

definition failed_state :: lstate where
  "failed_state =
     \<lparr>trace = ready_trace @
        [ImportTensorrt,
         Makedirs UnetEngine (dirname (unet_path (init_fields example_args) example_args)),
         NewModel UnetEngine 2 2,
         compile_call UnetEngine (init_fields example_args) example_args],
      stream = \<lparr>unet = PipeUNet, vae = torch_vae (AutoencoderTiny ''madebyollin/taesd''),
                stable_fast = False\<rparr>\<rparr>"

text \<open>
  The calls a method appends to the trace, the statement that a method leaves the wrapper's
  attributes as they are, and the values that \<^verbatim>\<open>preprocess_image\<close> computes.
\<close>

definition new_calls :: "('a, 'z tstate_scheme) prog \<Rightarrow> 'z tstate_scheme \<Rightarrow> event list" where
  "new_calls c s = drop (length (trace s)) (trace (snd (c s)))"

definition keeps :: "('a, wstate) prog \<Rightarrow> bool" where
  "keeps c = (\<forall>s. obj (snd (c s)) = obj s)"

definition rgb_resized :: "wrapper \<Rightarrow> pil_image \<Rightarrow> pil_image" where
  "rgb_resized self i = Resized (width self) (height self) (Converted ''RGB'' i)"

definition processed :: "wrapper \<Rightarrow> pyval \<Rightarrow> tensor" where
  "processed self v = Preprocessed v (height self) (width self)"

definition on_device :: "wrapper \<Rightarrow> tensor \<Rightarrow> tensor" where
  "on_device self t = MovedTo (device self) (dtype self) t"

definition example_wrapper :: wrapper where
  "example_wrapper =
     \<lparr>device = ''cuda'', dtype = ''float16'', width = 512, height = 512, mode = ''img2img'',
      frame_buffer_size = 1, batch_size = 2,
      wstream =
        \<lparr>unet = UNet2DConditionModelEngine (unet_path (init_fields example_args) example_args),
         vae = \<lparr>vae_module = AutoencoderKLEngine
                   (vae_encoder_path (init_fields example_args) example_args)
                   (vae_decoder_path (init_fields example_args) example_args),
                forward_is_decode = False,
                config_from = AutoencoderTiny ''madebyollin/taesd'',
                dtype_from = AutoencoderTiny ''madebyollin/taesd''\<rparr>,
         stable_fast = False\<rparr>\<rparr>"

definition batch_wrapper :: wrapper where
  "batch_wrapper = example_wrapper\<lparr>mode := ''txt2img'', frame_buffer_size := 2, batch_size := 4\<rparr>"

text \<open>
  The calls of the steps of \<^verbatim>\<open>_load_model\<close> when each of them returns, and the first call of
  the acceleration step in each mode.
\<close>

definition pipeline_calls :: "'a wrapper_fields_scheme \<Rightarrow> 'b load_args_scheme \<Rightarrow> event list" where
  "pipeline_calls self a =
     [if endswith (model_id a) ''.safetensors'' then FromSingleFile (model_id a)
      else FromPretrained (model_id a),
      PipeTo (device self) (dtype self),
      NewStreamDiffusion (t_index_list a) (dtype self) (width self) (height self)
        (is_drawing a) (frame_buffer_size self)]"

definition lora_calls :: "'b load_args_scheme \<Rightarrow> event list" where
  "lora_calls a = (if lora_wanted a then [LoadLcmLora (lcm_lora_id a), FuseLora] else [])"

definition vae_calls :: "'b load_args_scheme \<Rightarrow> event list" where
  "vae_calls a =
     (if use_tiny_vae a
      then [TinyFromPretrained (case vae_id a of None \<Rightarrow> ''madebyollin/taesd'' | Some v \<Rightarrow> v), VaeTo]
      else [])"

definition accel_first :: "'b load_args_scheme \<Rightarrow> event list" where
  "accel_first a =
     (if acceleration a = ''xformers'' then [EnableXformers]
      else if acceleration a = ''tensorrt'' then [ImportTensorrt]
      else if acceleration a = ''sfast'' then [ImportSfast]
      else [])"

definition reached :: "event list \<Rightarrow> 'b load_args_scheme \<Rightarrow> (exn + 'v) \<Rightarrow> event list \<Rightarrow> bool" where
  "reached pre a r es =
     (Prepare [] 50 (Some 2) \<in> set es \<or> (\<exists>v. r = Inr v) \<longrightarrow>
        (\<exists>es4. es = pre @ es4 @ [Prepare [] 50 (Some 2)]
           \<and> (\<forall>e\<in>set es4. phase e = 4) \<and> take 1 es4 = accel_first a))"

definition constructed :: "init_args \<Rightarrow> event list \<Rightarrow> bool" where
  "constructed a es =
     (\<exists>es4 es6. es = pipeline_calls (init_fields a) a @ lora_calls a @ vae_calls a @ es4
                      @ [Prepare [] 50 (Some 2)] @ es6
        \<and> (\<forall>e\<in>set es4. phase e = 4) \<and> take 1 es4 = accel_first a
        \<and> (\<forall>e\<in>set es6. phase e = 6))"

definition example_state :: wstate where
  "example_state = \<lparr>trace = [], obj = example_wrapper\<rparr>"

definition pil_input_tensor :: pyval where
  "pil_input_tensor =
     Tensor (MovedTo ''cuda'' ''float16''
       (Preprocessed (Pil (Resized 512 512 (Converted ''RGB'' (UserImage 0)))) 512 512))"

definition path_input_tensor :: pyval where
  "path_input_tensor =
     Tensor (MovedTo ''cuda'' ''float16''
       (Preprocessed
          (Pil (Resized 512 512 (Converted ''RGB''
             (Resized 512 512 (Converted ''RGB'' (Opened ''a.png''))))))
          512 512))"

section \<open>Reasoning about runs\<close>

lemma runs_weaken: "runs c Q \<Longrightarrow> (\<And>r es. Q r es \<Longrightarrow> Q' r es) \<Longrightarrow> runs c Q'"
  unfolding runs_def by blast

lemma runs_call:
  "runs (call w e) (\<lambda>r es. es = [e] \<and> r = (case raises w e of None \<Rightarrow> Inr () | Some x \<Rightarrow> Inl x))"
  by (simp add: runs_def call_def split: option.split)

lemma runs_emit: "runs (emit e) (\<lambda>r es. es = [e] \<and> r = Inr ())"
  by (simp add: runs_def emit_def)

lemma runs_assign: "runs (assign f) (\<lambda>r es. es = [] \<and> r = Inr ())"
  by (simp add: runs_def assign_def)

lemma runs_block_Nil: "runs (block []) (\<lambda>r es. es = [] \<and> r = Inr ())"
  by (simp add: runs_def)

lemma runs_seq:
  assumes c: "runs c Q1" and cs: "runs (block cs) Q2"
    and fail: "\<And>e es1. Q1 (Inl e) es1 \<Longrightarrow> Q (Inl e) es1"
    and ok: "\<And>u es1 r es2. Q1 (Inr u) es1 \<Longrightarrow> Q2 r es2 \<Longrightarrow> Q r (es1 @ es2)"
  shows "runs (block (c # cs)) Q"
  unfolding runs_def
proof
  fix s
  from c obtain es1 where 1: "trace (snd (c s)) = trace s @ es1" "Q1 (fst (c s)) es1"
    unfolding runs_def by blast
  show "\<exists>es. trace (snd (block (c # cs) s)) = trace s @ es \<and> Q (fst (block (c # cs) s)) es"
  proof (cases "fst (c s)")
    case (Inl e)
    then have "block (c # cs) s = (Inl e, snd (c s))"
      by (cases "c s") simp
    with 1 Inl fail show ?thesis by auto
  next
    case (Inr u)
    then have eq: "block (c # cs) s = block cs (snd (c s))"
      by (cases "c s") simp
    from cs obtain es2 where 2: "trace (snd (block cs (snd (c s)))) = trace (snd (c s)) @ es2"
        "Q2 (fst (block cs (snd (c s)))) es2"
      unfolding runs_def by blast
    from 1 2 Inr ok[of u es1 "fst (block cs (snd (c s)))" es2] eq show ?thesis
      by auto
  qed
qed

lemma runs_py_if:
  assumes "b \<Longrightarrow> runs (block cs) Q" and "\<not> b \<Longrightarrow> Q (Inr ()) []"
  shows "runs (py_if b cs) Q"
  using assms by (cases b) (auto simp: py_if_def runs_def)

lemma runs_reading: "(\<And>s0. runs (f s0) Q) \<Longrightarrow> runs (reading f) Q"
  by (simp add: runs_def reading_def)

lemma runs_bind:
  assumes m: "runs m Q1" and f: "\<And>v. runs (f v) (Q2 v)"
    and fail: "\<And>e es1. Q1 (Inl e) es1 \<Longrightarrow> Q (Inl e) es1"
    and ok: "\<And>v es1 r es2. Q1 (Inr v) es1 \<Longrightarrow> Q2 v r es2 \<Longrightarrow> Q r (es1 @ es2)"
  shows "runs (bind_prog m f) Q"
  unfolding runs_def
proof
  fix s
  from m obtain es1 where 1: "trace (snd (m s)) = trace s @ es1" "Q1 (fst (m s)) es1"
    unfolding runs_def by blast
  show "\<exists>es. trace (snd (bind_prog m f s)) = trace s @ es \<and> Q (fst (bind_prog m f s)) es"
  proof (cases "fst (m s)")
    case (Inl e)
    then have "bind_prog m f s = (Inl e, snd (m s))"
      by (cases "m s") (simp add: bind_prog_def)
    with 1 Inl fail show ?thesis by auto
  next
    case (Inr v)
    then have eq: "bind_prog m f s = f v (snd (m s))"
      by (cases "m s") (simp add: bind_prog_def)
    from f[of v] obtain es2 where 2: "trace (snd (f v (snd (m s)))) = trace (snd (m s)) @ es2"
        "Q2 v (fst (f v (snd (m s)))) es2"
      unfolding runs_def by blast
    from 1 2 Inr ok[of v es1 "fst (f v (snd (m s)))" es2] eq show ?thesis
      by auto
  qed
qed

lemma runs_try:
  assumes b: "runs body Q1" and h: "\<And>e. runs (handler e) (Q2 e)"
    and caught: "\<And>m es1 r es2. Q1 (Inl (Exception m)) es1 \<Longrightarrow> Q2 (Exception m) r es2 \<Longrightarrow> Q r (es1 @ es2)"
    and passed: "\<And>m es1. Q1 (Inl (BaseExceptionOnly m)) es1 \<Longrightarrow> Q (Inl (BaseExceptionOnly m)) es1"
    and ok: "\<And>u es1. Q1 (Inr u) es1 \<Longrightarrow> Q (Inr u) es1"
  shows "runs (try_except_Exception body handler) Q"
  unfolding runs_def
proof
  fix s
  from b obtain es1 where 1: "trace (snd (body s)) = trace s @ es1" "Q1 (fst (body s)) es1"
    unfolding runs_def by blast
  obtain r1 s1 where bs: "body s = (r1, s1)" by (cases "body s")
  show "\<exists>es. trace (snd (try_except_Exception body handler s)) = trace s @ es
          \<and> Q (fst (try_except_Exception body handler s)) es"
  proof (cases r1)
    case (Inr u)
    with bs 1 ok show ?thesis by (auto simp: try_except_Exception_def)
  next
    case (Inl e)
    show ?thesis
    proof (cases e)
      case (BaseExceptionOnly m)
      with Inl bs 1 passed show ?thesis by (auto simp: try_except_Exception_def)
    next
      case (Exception m)
      from h[of e] obtain es2 where 2: "trace (snd (handler e s1)) = trace s1 @ es2"
          "Q2 e (fst (handler e s1)) es2"
        unfolding runs_def by blast
      from Exception Inl bs 1 2 caught[of m es1 "fst (handler e s1)" es2] show ?thesis
        by (auto simp: try_except_Exception_def)
    qed
  qed
qed


lemma emits_call: "Q [e] \<Longrightarrow> emits Q (call w e)"
  unfolding emits_def by (rule runs_weaken[OF runs_call]) simp

lemma emits_emit: "Q [e] \<Longrightarrow> emits Q (emit e)"
  unfolding emits_def by (rule runs_weaken[OF runs_emit]) simp

lemma emits_assign: "closed Q \<Longrightarrow> emits Q (assign f)"
  unfolding emits_def closed_def by (rule runs_weaken[OF runs_assign]) simp

lemma emits_ret: "closed Q \<Longrightarrow> emits Q (ret v)"
  by (simp add: emits_def closed_def runs_def ret_def)

lemma emits_raise: "closed Q \<Longrightarrow> emits Q (raise x)"
  by (simp add: emits_def closed_def runs_def raise_def)

lemma emits_block:
  assumes Q: "closed Q" and cs: "\<And>c. c \<in> set cs \<Longrightarrow> emits Q c"
  shows "emits Q (block cs)"
  using cs
proof (induction cs)
  case Nil
  show ?case unfolding emits_def
    by (rule runs_weaken[OF runs_block_Nil]) (use Q in \<open>simp add: closed_def\<close>)
next
  case (Cons c cs)
  have 1: "runs c (\<lambda>r es. Q es)" using Cons.prems by (simp add: emits_def)
  have 2: "runs (block cs) (\<lambda>r es. Q es)" using Cons by (simp add: emits_def)
  show ?case unfolding emits_def
    by (rule runs_seq[OF 1 2]) (use Q in \<open>auto simp: closed_def\<close>)
qed

lemma emits_py_if:
  assumes "closed Q" and "\<And>c. c \<in> set cs \<Longrightarrow> emits Q c"
  shows "emits Q (py_if b cs)"
proof (cases b)
  case True
  then show ?thesis using emits_block[OF assms] by (simp add: py_if_def)
next
  case False
  then show ?thesis using emits_block[OF assms(1), of "[]"] by (simp add: py_if_def)
qed

lemma emits_reading: "(\<And>s0. emits Q (f s0)) \<Longrightarrow> emits Q (reading f)"
  unfolding emits_def by (rule runs_reading)

lemma emits_bind:
  assumes Q: "closed Q" and m: "emits Q m" and f: "\<And>v. emits Q (f v)"
  shows "emits Q (bind_prog m f)"
  unfolding emits_def
  by (rule runs_bind[where ?Q1.0 = "\<lambda>r es. Q es" and ?Q2.0 = "\<lambda>v r es. Q es"])
     (use assms in \<open>auto simp: emits_def closed_def\<close>)

lemma emits_try:
  assumes Q: "closed Q" and b: "emits Q body" and h: "\<And>e. emits Q (handler e)"
  shows "emits Q (try_except_Exception body handler)"
  unfolding emits_def
  by (rule runs_try[where ?Q1.0 = "\<lambda>r es. Q es" and ?Q2.0 = "\<lambda>e r es. Q es"])
     (use assms in \<open>auto simp: emits_def closed_def\<close>)

lemmas emits_intros =
  emits_call emits_emit emits_assign emits_ret emits_raise emits_block emits_py_if
  emits_reading emits_bind emits_try

lemma closed_all: "closed (\<lambda>es. \<forall>e\<in>set es. P e)"
  by (auto simp: closed_def)

lemma only_build_pipeline: "emits (\<lambda>es. \<forall>e\<in>set es. phase e = 1) (build_pipeline w self a)"
  unfolding build_pipeline_def
  by (intro emits_intros closed_all) (auto intro!: emits_intros closed_all)

lemma only_fuse: "emits (\<lambda>es. \<forall>e\<in>set es. phase e = 2) (fuse_lcm_lora w a)"
  unfolding fuse_lcm_lora_def
  by (intro emits_intros closed_all) (auto intro!: emits_intros closed_all split: option.split)

lemma only_replace_vae: "emits (\<lambda>es. \<forall>e\<in>set es. phase e = 3) (replace_vae w a)"
  unfolding replace_vae_def
  by (intro emits_intros closed_all) (auto intro!: emits_intros closed_all split: option.split)

lemma only_accelerate: "emits (\<lambda>es. \<forall>e\<in>set es. phase e = 4) (accelerate w self a)"
  unfolding accelerate_def build_unet_engine_def build_vae_decoder_engine_def
      build_vae_encoder_engine_def swap_engines_def
  by (intro emits_intros closed_all) (auto intro!: emits_intros closed_all)

lemma only_fallback: "emits (\<lambda>es. \<forall>e\<in>set es. phase e = 4) (fallback x)"
  unfolding fallback_def
  by (intro emits_intros closed_all) (auto intro!: emits_intros closed_all)

lemma only_try: "emits (\<lambda>es. \<forall>e\<in>set es. phase e = 4) (try_except_Exception (accelerate w self a) fallback)"
  by (intro emits_try closed_all only_accelerate only_fallback)

lemma sorted_const: "\<forall>e\<in>set es. f e = (k::nat) \<Longrightarrow> sorted (map f es)"
  by (induction es) auto

lemma phased_only: "emits (\<lambda>es. \<forall>e\<in>set es. phase e = k) c \<Longrightarrow> lo \<le> k \<Longrightarrow> k \<le> hi \<Longrightarrow> phased lo hi c"
  unfolding phased_def emits_def by (erule runs_weaken) (auto intro: sorted_const)

lemma phased_block_Nil: "phased lo hi (block [])"
  unfolding phased_def emits_def by (rule runs_weaken[OF runs_block_Nil]) simp

lemma phased_block_Cons:
  assumes "phased lo mid c" and "phased mid hi (block cs)" and "lo \<le> mid" and "mid \<le> hi"
  shows "phased lo hi (block (c # cs))"
  unfolding phased_def emits_def
  by (rule runs_seq[OF assms(1)[unfolded phased_def emits_def] assms(2)[unfolded phased_def emits_def]])
     (use assms(3,4) in \<open>auto simp: sorted_append\<close>, (force)+)

lemma phased_load_steps: "phased 1 5 (load_steps w self a)"
  unfolding load_steps_def
  apply (rule phased_block_Cons[where mid = 2])
  apply (rule phased_only[OF only_build_pipeline])
  apply simp_all
  apply (rule phased_block_Cons[where mid = 3])
  apply (rule phased_only[OF only_fuse])
  apply simp_all
  apply (rule phased_block_Cons[where mid = 4])
  apply (rule phased_only[OF only_replace_vae])
  apply simp_all
  apply (rule phased_block_Cons[where mid = 5])
  apply (rule phased_only[OF only_try])
  apply simp_all
  apply (rule phased_block_Cons[where mid = 5])
  apply (rule phased_only[where k = 5])
  apply (rule emits_call)
  apply simp_all
  apply (rule phased_block_Nil)
  done

lemma guarded_append:
  assumes xs: "guarded w self a xs" and ys: "guarded w self a ys"
    and mem: "Compile art x y z n \<in> set (xs @ ys)"
  shows "Compile art x y z n = compile_call art self a
        \<and> \<not> path_exists w (engine_path art self a)
        \<and> Makedirs art (dirname (engine_path art self a))
            \<in> set (takeWhile (\<lambda>e. e \<noteq> compile_call art self a) (xs @ ys))"
proof (cases "Compile art x y z n \<in> set xs")
  case True
  with xs have 1: "Compile art x y z n = compile_call art self a"
    "\<not> path_exists w (engine_path art self a)"
    "Makedirs art (dirname (engine_path art self a))
          \<in> set (takeWhile (\<lambda>e. e \<noteq> compile_call art self a) xs)"
    unfolding guarded_def by blast+
  from True 1(1) have "compile_call art self a \<in> set xs" by simp
  then have "takeWhile (\<lambda>e. e \<noteq> compile_call art self a) (xs @ ys)
      = takeWhile (\<lambda>e. e \<noteq> compile_call art self a) xs"
    by (intro takeWhile_append1) auto
  with 1 show ?thesis by simp
next
  case False
  with mem have iny: "Compile art x y z n \<in> set ys" by simp
  with ys have 1: "Compile art x y z n = compile_call art self a"
    "\<not> path_exists w (engine_path art self a)"
    "Makedirs art (dirname (engine_path art self a))
          \<in> set (takeWhile (\<lambda>e. e \<noteq> compile_call art self a) ys)"
    unfolding guarded_def by blast+
  show ?thesis using 1 False by (auto simp: takeWhile_append)
qed

lemma closed_guarded: "closed (guarded w self a)"
  unfolding closed_def
proof (intro conjI allI impI)
  show "guarded w self a []" by (simp add: guarded_def)
next
  fix xs ys
  assume "guarded w self a xs" "guarded w self a ys"
  then show "guarded w self a (xs @ ys)"
    using guarded_append[of w self a xs ys]
    unfolding guarded_def[of w self a "xs @ ys"] by blast
qed

lemma guarded_other_phase: "\<forall>e\<in>set es. phase e \<noteq> 4 \<Longrightarrow> guarded w self a es"
  by (fastforce simp: guarded_def)

lemma guarded_build_unet: "emits (guarded w self a) (build_unet_engine w self a)"
  by (auto simp: emits_def runs_def build_unet_engine_def py_if_def call_def guarded_def
      compile_call_def engine_path_def engine_batch_def split: option.split)

lemma guarded_build_vae_decoder: "emits (guarded w self a) (build_vae_decoder_engine w self a)"
  by (auto simp: emits_def runs_def build_vae_decoder_engine_def py_if_def call_def assign_def guarded_def
      compile_call_def engine_path_def engine_batch_def split: option.split)

lemma guarded_build_vae_encoder: "emits (guarded w self a) (build_vae_encoder_engine w self a)"
  by (auto simp: emits_def runs_def build_vae_encoder_engine_def py_if_def call_def guarded_def
      compile_call_def engine_path_def engine_batch_def split: option.split)

lemma guarded_accelerate: "emits (guarded w self a) (accelerate w self a)"
  unfolding accelerate_def swap_engines_def
  by (intro emits_intros closed_guarded guarded_build_unet guarded_build_vae_decoder
        guarded_build_vae_encoder)
     (auto intro!: emits_intros closed_guarded guarded_build_unet guarded_build_vae_decoder
        guarded_build_vae_encoder simp: guarded_def)

lemma guarded_build_pipeline: "emits (guarded w self a) (build_pipeline w self a)"
  unfolding emits_def
  by (rule runs_weaken[OF only_build_pipeline[unfolded emits_def]]) (auto intro: guarded_other_phase)

lemma guarded_fuse: "emits (guarded w self a) (fuse_lcm_lora w a)"
  unfolding emits_def
  by (rule runs_weaken[OF only_fuse[unfolded emits_def]]) (auto intro: guarded_other_phase)

lemma guarded_replace_vae: "emits (guarded w self a) (replace_vae w a)"
  unfolding emits_def
  by (rule runs_weaken[OF only_replace_vae[unfolded emits_def]]) (auto intro: guarded_other_phase)

lemma guarded_try: "emits (guarded w self a) (try_except_Exception (accelerate w self a) fallback)"
  by (intro emits_try closed_guarded guarded_accelerate)
     (auto simp: fallback_def guarded_def intro!: emits_intros closed_guarded)

lemma guarded_load_steps: "emits (guarded w self a) (load_steps w self a)"
  unfolding load_steps_def
  by (intro emits_block closed_guarded)
     (auto intro: guarded_build_pipeline guarded_fuse guarded_replace_vae guarded_try emits_call
        simp: guarded_def)

text \<open>A completed TensorRT setup has compiled every engine whose path was missing.\<close>

lemma complete_build_unet:
  "runs (build_unet_engine w self a) (\<lambda>r es. trt_enabled \<notin> set es \<and>
      (r = Inr () \<longrightarrow> \<not> path_exists w (engine_path UnetEngine self a) \<longrightarrow> compile_call UnetEngine self a \<in> set es))"
  by (auto simp: runs_def build_unet_engine_def py_if_def call_def trt_enabled_def
      compile_call_def engine_path_def engine_batch_def split: option.split)

lemma complete_build_vae_decoder:
  "runs (build_vae_decoder_engine w self a) (\<lambda>r es. trt_enabled \<notin> set es \<and>
      (r = Inr () \<longrightarrow> \<not> path_exists w (engine_path VaeDecoderEngine self a) \<longrightarrow> compile_call VaeDecoderEngine self a \<in> set es))"
  by (auto simp: runs_def build_vae_decoder_engine_def py_if_def call_def assign_def trt_enabled_def
      compile_call_def engine_path_def engine_batch_def split: option.split)

lemma complete_build_vae_encoder:
  "runs (build_vae_encoder_engine w self a) (\<lambda>r es. trt_enabled \<notin> set es \<and>
      (r = Inr () \<longrightarrow> \<not> path_exists w (engine_path VaeEncoderEngine self a) \<longrightarrow> compile_call VaeEncoderEngine self a \<in> set es))"
  by (auto simp: runs_def build_vae_encoder_engine_def py_if_def call_def trt_enabled_def
      compile_call_def engine_path_def engine_batch_def split: option.split)

lemma complete_swap: "runs (block [swap_engines w self a]) (\<lambda>r es. complete w self a [] es)"
  by (auto simp: runs_def swap_engines_def reading_def call_def assign_def emit_def trt_enabled_def
      complete_def split: option.split)

lemma complete_trt_branch:
  "runs (block [call w ImportTensorrt, build_unet_engine w self a, build_vae_decoder_engine w self a,
                build_vae_encoder_engine w self a, swap_engines w self a])
     (\<lambda>r es. complete w self a [UnetEngine, VaeDecoderEngine, VaeEncoderEngine] es)"
proof -
  have e: "runs (block [build_vae_encoder_engine w self a, swap_engines w self a])
             (\<lambda>r es. complete w self a [VaeEncoderEngine] es)"
    by (rule runs_seq[OF complete_build_vae_encoder complete_swap]) (auto simp: complete_def)
  have d: "runs (block [build_vae_decoder_engine w self a, build_vae_encoder_engine w self a,
                        swap_engines w self a])
             (\<lambda>r es. complete w self a [VaeDecoderEngine, VaeEncoderEngine] es)"
    by (rule runs_seq[OF complete_build_vae_decoder e]) (auto simp: complete_def)
  have u: "runs (block [build_unet_engine w self a, build_vae_decoder_engine w self a,
                        build_vae_encoder_engine w self a, swap_engines w self a])
             (\<lambda>r es. complete w self a [UnetEngine, VaeDecoderEngine, VaeEncoderEngine] es)"
    by (rule runs_seq[OF complete_build_unet d]) (auto simp: complete_def)
  show ?thesis
    by (rule runs_seq[OF runs_call u]) (auto simp: complete_def trt_enabled_def)
qed

lemma closed_complete: "closed (complete w self a arts)"
  by (auto simp: closed_def complete_def)

lemma complete_other: "trt_enabled \<notin> set es \<Longrightarrow> complete w self a arts es"
  by (simp add: complete_def)

lemma complete_accelerate:
  "emits (complete w self a [UnetEngine, VaeDecoderEngine, VaeEncoderEngine]) (accelerate w self a)"
proof -
  have trt: "emits (complete w self a [UnetEngine, VaeDecoderEngine, VaeEncoderEngine])
     (py_if (acceleration a = ''tensorrt'') [call w ImportTensorrt, build_unet_engine w self a,
        build_vae_decoder_engine w self a, build_vae_encoder_engine w self a, swap_engines w self a])"
    unfolding emits_def
    by (rule runs_py_if) (auto intro: complete_trt_branch simp: complete_def)
  show ?thesis
    unfolding accelerate_def
    by (intro emits_block closed_complete)
       (auto intro!: trt emits_intros closed_complete complete_other simp: trt_enabled_def)
qed

lemma complete_load_steps:
  "emits (complete w self a [UnetEngine, VaeDecoderEngine, VaeEncoderEngine]) (load_steps w self a)"
proof -
  have other: "\<And>c k. emits (\<lambda>es. \<forall>e\<in>set es. phase e = k) c \<Longrightarrow> k \<noteq> 4 \<Longrightarrow>
      emits (complete w self a [UnetEngine, VaeDecoderEngine, VaeEncoderEngine]) c"
    unfolding emits_def by (erule runs_weaken) (auto intro!: complete_other simp: trt_enabled_def)
  have t: "emits (complete w self a [UnetEngine, VaeDecoderEngine, VaeEncoderEngine])
             (try_except_Exception (accelerate w self a) fallback)"
    by (intro emits_try closed_complete complete_accelerate)
       (auto simp: fallback_def trt_enabled_def intro!: emits_intros closed_complete complete_other)
  show ?thesis
    unfolding load_steps_def
    by (intro emits_block closed_complete)
       (auto intro: other[OF only_build_pipeline] other[OF only_fuse] other[OF only_replace_vae] t
          intro!: emits_call complete_other simp: trt_enabled_def)
qed

lemma emits_load_model:
  assumes "closed Q" and "emits Q (load_steps w self a :: (unit, 'c lstate_scheme) prog)"
  shows "emits Q (load_model w self a :: (stream_obj, 'c lstate_scheme) prog)"
  unfolding load_model_def
  by (intro emits_bind emits_reading emits_ret assms)

lemma emits_init_steps:
  assumes Q: "closed Q" and l: "emits Q (load_steps w (init_fields a) a :: (unit, lstate) prog)"
    and dp: "\<And>ids. Q [NewDataParallel ids]" and f: "\<And>t. Q [EnableSimilarImageFilter t]"
  shows "emits Q (init_steps w a)"
  unfolding init_steps_def
  by (intro emits_block Q)
     (auto intro!: emits_intros emits_load_model Q l dp f split: option.split)

lemma snd_init: "snd (init w a) = trace (snd (init_steps w a fresh))"
  by (simp add: init_def split: prod.split sum.split)

lemma emits_init: "emits Q (init_steps w a) \<Longrightarrow> Q (snd (init w a))"
  unfolding emits_def runs_def snd_init
proof -
  assume "\<forall>s. \<exists>es. trace (snd (init_steps w a s)) = trace s @ es \<and> Q es"
  then obtain es where "trace (snd (init_steps w a fresh)) = trace fresh @ es" "Q es" by blast
  then show "Q (trace (snd (init_steps w a fresh)))" by (simp add: fresh_def)
qed

lemma phased_bind_silent:
  assumes m: "phased lo hi m" and f: "\<And>v. emits (\<lambda>es. es = []) (f v)"
  shows "phased lo hi (bind_prog m f)"
  unfolding phased_def emits_def
  by (rule runs_bind[OF m[unfolded phased_def emits_def] f[unfolded emits_def]]) auto

lemma silent_closed: "closed (\<lambda>es. es = [])"
  by (simp add: closed_def)

lemma phased_init_steps: "phased 1 6 (init_steps w a)"
  unfolding init_steps_def
proof (rule phased_block_Cons[where mid = 5])
  show "phased 1 5 (bind_prog (load_model w (init_fields a) a) (\<lambda>st. assign (\<lambda>_. st)))"
    unfolding load_model_def
    by (intro phased_bind_silent phased_load_steps emits_reading emits_ret emits_assign silent_closed)
  show "phased 5 6 (block [case device_ids a of None \<Rightarrow> block []
          | Some ids \<Rightarrow> block [call w (NewDataParallel ids), assign (\<lambda>st. st\<lparr>unet := DataParallel (unet st) ids\<rparr>)],
        py_if (enable_similar_image_filter a) [call w (EnableSimilarImageFilter (similar_image_filter_threshold a))]])"
    by (rule phased_only[where k = 6], intro emits_block closed_all)
       (auto intro!: emits_intros closed_all split: option.split)
qed simp_all

lemma artifact_all: "(\<forall>art\<in>set [UnetEngine, VaeDecoderEngine, VaeEncoderEngine]. P art) = (\<forall>art. P art)"
proof -
  have "\<And>art. art \<in> set [UnetEngine, VaeDecoderEngine, VaeEncoderEngine]"
    by (case_tac art) simp_all
  then show ?thesis by blast
qed

lemma guarded_init: "guarded w (init_fields a) a (snd (init w a))"
proof -
  have "emits (guarded w (init_fields a) a) (init_steps w a)"
    by (rule emits_init_steps[OF closed_guarded guarded_load_steps]) (simp_all add: guarded_def)
  then show ?thesis by (rule emits_init)
qed

lemma complete_init:
  "complete w (init_fields a) a [UnetEngine, VaeDecoderEngine, VaeEncoderEngine] (snd (init w a))"
proof -
  have "emits (complete w (init_fields a) a [UnetEngine, VaeDecoderEngine, VaeEncoderEngine])
          (init_steps w a)"
    by (rule emits_init_steps[OF closed_complete complete_load_steps])
       (simp_all add: complete_def trt_enabled_def)
  then show ?thesis by (rule emits_init)
qed

text \<open>
  Claim C6. For each of the three TensorRT engines: a compilation call that occurs while
  the wrapper is constructed is the one for that engine's path, the path did not exist
  when it was checked, and \<^verbatim>\<open>os.makedirs\<close> on its directory was called before the
  compilation. In a construction that completes the TensorRT setup, the engine is compiled
  if and only if its path did not exist, and the engines are loaded from the three paths,
  compiled just now or cached.
\<close>

theorem engine_compiled_iff_missing:
  "(Compile art x y z n \<in> set (snd (init w a)) \<longrightarrow>
      Compile art x y z n = compile_call art (init_fields a) a
      \<and> \<not> path_exists w (engine_path art (init_fields a) a)
      \<and> Makedirs art (dirname (engine_path art (init_fields a) a))
          \<in> set (takeWhile (\<lambda>e. e \<noteq> compile_call art (init_fields a) a) (snd (init w a))))
   \<and> (Print ''TensorRT acceleration enabled.'' \<in> set (snd (init w a)) \<longrightarrow>
        (compile_call art (init_fields a) a \<in> set (snd (init w a))
           \<longleftrightarrow> \<not> path_exists w (engine_path art (init_fields a) a))
        \<and> NewUNetEngine (unet_path (init_fields a) a) \<in> set (snd (init w a))
        \<and> NewVAEEngine (vae_encoder_path (init_fields a) a) (vae_decoder_path (init_fields a) a)
            \<in> set (snd (init w a)))"
proof -
  have g: "guarded w (init_fields a) a (snd (init w a))" by (rule guarded_init)
  have c: "complete w (init_fields a) a [UnetEngine, VaeDecoderEngine, VaeEncoderEngine] (snd (init w a))"
    by (rule complete_init)
  have 1: "Compile art x y z n \<in> set (snd (init w a)) \<longrightarrow>
      Compile art x y z n = compile_call art (init_fields a) a
      \<and> \<not> path_exists w (engine_path art (init_fields a) a)
      \<and> Makedirs art (dirname (engine_path art (init_fields a) a))
          \<in> set (takeWhile (\<lambda>e. e \<noteq> compile_call art (init_fields a) a) (snd (init w a)))"
    using g unfolding guarded_def by blast
  have 2: "compile_call art (init_fields a) a \<in> set (snd (init w a))
      \<Longrightarrow> \<not> path_exists w (engine_path art (init_fields a) a)"
    using g unfolding guarded_def compile_call_def by blast
  have 3: "Print ''TensorRT acceleration enabled.'' \<in> set (snd (init w a)) \<Longrightarrow>
       (\<not> path_exists w (engine_path art (init_fields a) a) \<longrightarrow>
          compile_call art (init_fields a) a \<in> set (snd (init w a)))
        \<and> NewUNetEngine (unet_path (init_fields a) a) \<in> set (snd (init w a))
        \<and> NewVAEEngine (vae_encoder_path (init_fields a) a) (vae_decoder_path (init_fields a) a)
            \<in> set (snd (init w a))"
    using c unfolding complete_def artifact_all trt_enabled_def by blast
  show ?thesis using 1 2 3 by blast
qed

lemma example_fields:
    "model_id example_args = ''sd''" "t_index_list example_args = [32, 45]"
    "lcm_lora_id example_args = None" "vae_id example_args = None"
    "acceleration example_args = ''tensorrt''" "is_drawing example_args = True"
    "use_lcm_lora example_args = True" "use_tiny_vae example_args = True"
    "device_ids example_args = None" "enable_similar_image_filter example_args = False"
    "device (init_fields example_args) = ''cuda''" "dtype (init_fields example_args) = ''float16''"
    "width (init_fields example_args) = 512" "height (init_fields example_args) = 512"
    "frame_buffer_size (init_fields example_args) = 1" "batch_size (init_fields example_args) = 2"
    "mode (init_fields example_args) = ''img2img''"
    "raises quiet_world = (\<lambda>e. None)" "path_exists quiet_world = (\<lambda>p. False)"
  by (simp_all add: example_args_def init_fields_def quiet_world_def)

lemmas run_defs =
  init_steps_def load_model_def load_steps_def build_pipeline_def
  fuse_lcm_lora_def replace_vae_def accelerate_def build_unet_engine_def
  build_vae_decoder_engine_def build_vae_encoder_engine_def swap_engines_def fallback_def
  try_except_Exception_def py_if_def call_def emit_def assign_def reading_def ret_def
  bind_prog_def fresh_def endswith_def

lemma init_example_trace:
  "snd (init quiet_world example_args) =
     [FromPretrained ''sd'', PipeTo ''cuda'' ''float16'',
      NewStreamDiffusion [32, 45] ''float16'' 512 512 True 1,
      LoadLcmLora None, FuseLora, TinyFromPretrained ''madebyollin/taesd'', VaeTo,
      ImportTensorrt,
      Makedirs UnetEngine (dirname (unet_path (init_fields example_args) example_args)),
      NewModel UnetEngine 2 2,
      compile_call UnetEngine (init_fields example_args) example_args,
      Makedirs VaeDecoderEngine (dirname (vae_decoder_path (init_fields example_args) example_args)),
      NewModel VaeDecoderEngine 1 1,
      compile_call VaeDecoderEngine (init_fields example_args) example_args,
      Makedirs VaeEncoderEngine (dirname (vae_encoder_path (init_fields example_args) example_args)),
      NewTorchVAEEncoder,
      NewModel VaeEncoderEngine 1 1,
      compile_call VaeEncoderEngine (init_fields example_args) example_args,
      NewCudaStream,
      NewUNetEngine (unet_path (init_fields example_args) example_args),
      NewVAEEngine (vae_encoder_path (init_fields example_args) example_args)
        (vae_decoder_path (init_fields example_args) example_args),
      GcCollect, EmptyCache, Print ''TensorRT acceleration enabled.'',
      Prepare [] 50 (Some 2)]"
  by (simp add: snd_init run_defs example_fields compile_call_def engine_path_def
      engine_batch_def vae_batch_def)

theorem engine_compiled_iff_missing_witness:
  "Print ''TensorRT acceleration enabled.'' \<in> set (snd (init quiet_world example_args))
   \<and> \<not> path_exists quiet_world (engine_path UnetEngine (init_fields example_args) example_args)
   \<and> compile_call UnetEngine (init_fields example_args) example_args
        \<in> set (snd (init quiet_world example_args))
   \<and> Makedirs UnetEngine (dirname (engine_path UnetEngine (init_fields example_args) example_args))
        \<in> set (takeWhile (\<lambda>e. e \<noteq> compile_call UnetEngine (init_fields example_args) example_args)
                 (snd (init quiet_world example_args)))
   \<and> NewUNetEngine (unet_path (init_fields example_args) example_args)
        \<in> set (snd (init quiet_world example_args))"
  using engine_compiled_iff_missing[of UnetEngine
      "engine_path UnetEngine (init_fields example_args) example_args @ ''.onnx''"
      "engine_path UnetEngine (init_fields example_args) example_args @ ''.opt.onnx''"
      "engine_path UnetEngine (init_fields example_args) example_args"
      "engine_batch UnetEngine (init_fields example_args)" quiet_world example_args]
  by (simp add: init_example_trace example_fields compile_call_def)

lemma startswith_prefix: "startswith s p = prefix p s"
  by (induction s p rule: startswith.induct) auto

lemma str_contains_sublist: "str_contains sub s = sublist sub s"
  by (induction s) (simp_all add: sublist_Cons_right startswith_prefix)

lemma closed_lora_rule: "closed (lora_rule a)"
  unfolding closed_def lora_rule_def by auto

lemma lora_rule_other: "\<forall>e\<in>set es. phase e \<noteq> 2 \<and> phase e \<noteq> 5 \<Longrightarrow> lora_rule a es"
  by (fastforce simp: lora_rule_def)

lemma spec_fuse: "runs (fuse_lcm_lora w a) (fuse_spec a)"
  by (auto simp: runs_def fuse_spec_def fuse_lcm_lora_def py_if_def call_def lora_wanted_def
      split: option.split)

lemma lora_rest:
  "runs (block [replace_vae w a, try_except_Exception (accelerate w self a) fallback,
                call w (Prepare [] 50 (Some 2))])
     (\<lambda>r es. \<forall>e\<in>set es. phase e \<noteq> 2)"
proof -
  have w: "\<And>c k. emits (\<lambda>es. \<forall>e\<in>set es. phase e = k) c \<Longrightarrow> k \<noteq> 2 \<Longrightarrow>
      emits (\<lambda>es. \<forall>e\<in>set es. phase e \<noteq> 2) c"
    unfolding emits_def by (erule runs_weaken) auto
  have "emits (\<lambda>es. \<forall>e\<in>set es. phase e \<noteq> 2)
     (block [replace_vae w a, try_except_Exception (accelerate w self a) fallback,
                call w (Prepare [] 50 (Some 2))])"
    by (intro emits_block closed_all)
       (auto intro: w[OF only_replace_vae] w[OF only_try] intro!: emits_call)
  then show ?thesis by (simp add: emits_def)
qed

lemma phase_excludes:
  assumes "\<forall>e\<in>set es. phase e = k" and "e \<in> set es" and "phase e \<noteq> k"
  shows False
  using assms by blast

lemma phase_avoids:
  assumes "\<forall>e\<in>set es. phase e \<noteq> k" and "e \<in> set es" and "phase e = k"
  shows False
  using assms by blast

lemma fuse_specD:
  assumes "fuse_spec a r es"
  shows "\<forall>e\<in>set es. phase e = 2" and "es \<noteq> [] \<longrightarrow> lora_wanted a"
    and "\<forall>l. LoadLcmLora l \<in> set es \<longrightarrow> l = lcm_lora_id a"
    and "r = Inr () \<longrightarrow> lora_wanted a \<longrightarrow> es = [LoadLcmLora (lcm_lora_id a), FuseLora]"
  using assms unfolding fuse_spec_def by blast+

lemma lora_rule_fail:
  assumes s: "fuse_spec a r es"
  shows "lora_rule a es"
  unfolding lora_rule_def
proof (intro conjI impI allI)
  note p = fuse_specD(1)[OF s] and w = fuse_specD(2)[OF s] and l = fuse_specD(3)[OF s]
  {
    assume "(\<exists>l. LoadLcmLora l \<in> set es) \<or> FuseLora \<in> set es"
    then have "es \<noteq> []" by auto
    with w show "lora_wanted a" by simp
  next
    fix l assume "LoadLcmLora l \<in> set es"
    with l show "l = lcm_lora_id a" by simp
  next
    assume "Prepare [] 50 (Some 2) \<in> set es"
    from phase_excludes[OF p this] show "LoadLcmLora (lcm_lora_id a) \<in> set es" by simp
  next
    assume "Prepare [] 50 (Some 2) \<in> set es"
    from phase_excludes[OF p this] show "FuseLora \<in> set es" by simp
  }
qed

lemma lora_rule_ok:
  assumes s: "fuse_spec a (Inr u) es1"
    and rest: "\<forall>e\<in>set es2. phase e \<noteq> 2"
  shows "lora_rule a (es1 @ es2)"
proof -
  note w = fuse_specD(2)[OF s] and l = fuse_specD(3)[OF s]
  have full: "lora_wanted a \<longrightarrow> es1 = [LoadLcmLora (lcm_lora_id a), FuseLora]"
    using fuse_specD(4)[OF s] by simp
  have n1: "\<And>l. LoadLcmLora l \<notin> set es2"
    using phase_avoids[OF rest] by fastforce
  have n2: "FuseLora \<notin> set es2"
    using phase_avoids[OF rest] by fastforce
  show ?thesis
    unfolding lora_rule_def
  proof (intro conjI impI allI)
    assume "(\<exists>l. LoadLcmLora l \<in> set (es1 @ es2)) \<or> FuseLora \<in> set (es1 @ es2)"
    with n1 n2 have "es1 \<noteq> []" by auto
    with w show "lora_wanted a" by simp
  next
    fix l assume "LoadLcmLora l \<in> set (es1 @ es2)"
    with n1 have "LoadLcmLora l \<in> set es1" by simp
    with l show "l = lcm_lora_id a" by simp
  next
    assume "lora_wanted a"
    with full show "LoadLcmLora (lcm_lora_id a) \<in> set (es1 @ es2)" by simp
  next
    assume "lora_wanted a"
    with full show "FuseLora \<in> set (es1 @ es2)" by simp
  qed
qed

lemma lora_rule_prepend:
  assumes "\<forall>e\<in>set es1. phase e = 1" and "lora_rule a es2"
  shows "lora_rule a (es1 @ es2)"
proof -
  have "\<forall>e\<in>set es1. phase e \<noteq> 2 \<and> phase e \<noteq> 5" using assms(1) by simp
  then have "lora_rule a es1" by (rule lora_rule_other)
  with assms(2) closed_lora_rule[of a] show ?thesis unfolding closed_def by blast
qed

lemma lora_load_steps: "emits (lora_rule a) (load_steps w self a)"
proof -
  have 1: "runs (block [fuse_lcm_lora w a, replace_vae w a,
                try_except_Exception (accelerate w self a) fallback,
                call w (Prepare [] 50 (Some 2))]) (\<lambda>r es. lora_rule a es)"
  proof (rule runs_seq[OF spec_fuse lora_rest])
    fix e es1
    assume "fuse_spec a (Inl e) es1"
    then show "lora_rule a es1" by (rule lora_rule_fail)
  next
    fix u :: unit and es1 r es2
    assume "fuse_spec a (Inr u) es1" and "\<forall>e\<in>set es2. phase e \<noteq> 2"
    then show "lora_rule a (es1 @ es2)" by (rule lora_rule_ok)
  qed
  show ?thesis
    unfolding load_steps_def emits_def
  proof (rule runs_seq[OF only_build_pipeline[unfolded emits_def] 1])
    fix e es1
    assume "\<forall>e\<in>set es1. phase e = 1"
    then have "\<forall>e\<in>set es1. phase e \<noteq> 2 \<and> phase e \<noteq> 5" by simp
    then show "lora_rule a es1" by (rule lora_rule_other)
  next
    fix u :: unit and es1 r es2
    assume "\<forall>e\<in>set es1. phase e = 1" "lora_rule a es2"
    then show "lora_rule a (es1 @ es2)" by (rule lora_rule_prepend)
  qed
qed

lemma lora_init: "lora_rule a (snd (init w a))"
proof -
  have "emits (lora_rule a) (init_steps w a)"
    by (rule emits_init_steps[OF closed_lora_rule lora_load_steps]) (simp_all add: lora_rule_def)
  then show ?thesis by (rule emits_init)
qed

text \<open>
  Claim C8. While the wrapper is constructed, a call that loads or fuses the LCM-LoRA
  adapter occurs only if \<^verbatim>\<open>use_lcm_lora\<close> is true and \<^verbatim>\<open>"turbo"\<close> is not a substring of
  \<^verbatim>\<open>model_id\<close>, and the adapter loaded is the one of \<^verbatim>\<open>lcm_lora_id\<close>. In a construction
  that reaches \<^verbatim>\<open>stream.prepare\<close>, the adapter has been loaded and fused if and only if
  \<^verbatim>\<open>use_lcm_lora\<close> is true and \<^verbatim>\<open>"turbo"\<close> is not a substring of \<^verbatim>\<open>model_id\<close>; so a model
  id that contains \<^verbatim>\<open>"turbo"\<close> skips the fusion whatever the other arguments are.
\<close>

theorem lcm_lora_fused_iff:
  "(LoadLcmLora l \<in> set (snd (init w a)) \<or> FuseLora \<in> set (snd (init w a))
      \<longrightarrow> use_lcm_lora a \<and> \<not> sublist ''turbo'' (model_id a) \<and> (LoadLcmLora l \<in> set (snd (init w a)) \<longrightarrow> l = lcm_lora_id a))
   \<and> (Prepare [] 50 (Some 2) \<in> set (snd (init w a)) \<longrightarrow>
        (LoadLcmLora (lcm_lora_id a) \<in> set (snd (init w a)) \<and> FuseLora \<in> set (snd (init w a)))
          = (use_lcm_lora a \<and> \<not> sublist ''turbo'' (model_id a)))"
  using lora_init[of a w] unfolding lora_rule_def lora_wanted_def str_contains_sublist by blast

theorem lcm_lora_fused_iff_witness:
  "Prepare [] 50 (Some 2) \<in> set (snd (init quiet_world example_args))
   \<and> use_lcm_lora example_args \<and> \<not> sublist ''turbo'' (model_id example_args)
   \<and> LoadLcmLora (lcm_lora_id example_args) \<in> set (snd (init quiet_world example_args))
   \<and> FuseLora \<in> set (snd (init quiet_world example_args))"
  using lcm_lora_fused_iff[of "lcm_lora_id example_args" quiet_world example_args]
  by (simp add: init_example_trace example_fields str_contains_sublist[symmetric])

lemma block_append:
  "block (cs @ ds) s = (case block cs s of (Inl e, s') \<Rightarrow> (Inl e, s') | (Inr u, s') \<Rightarrow> block ds s')"
  by (induction cs arbitrary: s) (auto split: prod.split sum.split)

lemma failing_fields:
  "raises failing_world (Compile k x y z n) = Some (Exception ''engine build failed'')"
  "raises failing_world (FromPretrained p) = None"
  "raises failing_world (PipeTo d t) = None"
  "raises failing_world (NewStreamDiffusion ts t1 x1 y1 b n1) = None"
  "raises failing_world (LoadLcmLora l) = None"
  "raises failing_world FuseLora = None"
  "raises failing_world (TinyFromPretrained v) = None"
  "raises failing_world VaeTo = None"
  "raises failing_world ImportTensorrt = None"
  "raises failing_world (Makedirs k d) = None"
  "raises failing_world (NewModel k i j) = None"
  "raises failing_world (Prepare pr st g) = None"
  "path_exists failing_world = (\<lambda>p. False)"
  by (simp_all add: failing_world_def)

lemma example_ready:
  "block [build_pipeline failing_world (init_fields example_args) example_args,
          fuse_lcm_lora failing_world example_args, replace_vae failing_world example_args] fresh
     = (Inr (), ready_state)"
  by (simp add: run_defs example_fields(1-17) failing_fields ready_state_def ready_trace_def new_stream_def)

lemma example_failed:
  "accelerate failing_world (init_fields example_args) example_args ready_state
     = (Inl (Exception ''engine build failed''), failed_state)"
  by (simp add: run_defs example_fields(1-17) failing_fields ready_state_def failed_state_def
      compile_call_def engine_path_def engine_batch_def)

lemma interrupt_fields:
  "raises interrupt_world (Compile k x y z n) = Some (BaseExceptionOnly ''KeyboardInterrupt'')"
  "raises interrupt_world (FromPretrained p) = None"
  "raises interrupt_world (PipeTo d t) = None"
  "raises interrupt_world (NewStreamDiffusion ts t1 x1 y1 b n1) = None"
  "raises interrupt_world (LoadLcmLora l) = None"
  "raises interrupt_world FuseLora = None"
  "raises interrupt_world (TinyFromPretrained v) = None"
  "raises interrupt_world VaeTo = None"
  "raises interrupt_world ImportTensorrt = None"
  "raises interrupt_world (Makedirs k d) = None"
  "raises interrupt_world (NewModel k i j) = None"
  "raises interrupt_world (Prepare pr st g) = None"
  "path_exists interrupt_world = (\<lambda>p. False)"
  by (simp_all add: interrupt_world_def)

text \<open>
  An exception that is not an instance of \<^verbatim>\<open>Exception\<close> passes through the handler:
  a \<^verbatim>\<open>KeyboardInterrupt\<close> during the compilation of the UNet engine reaches the caller of
  \<^verbatim>\<open>_load_model\<close>, nothing is logged and \<^verbatim>\<open>stream.prepare\<close> is not called.
\<close>

theorem interrupt_propagates:
  "accelerate interrupt_world (init_fields example_args) example_args ready_state
     = (Inl (BaseExceptionOnly ''KeyboardInterrupt''), failed_state)
   \<and> load_model interrupt_world (init_fields example_args) example_args fresh
     = (Inl (BaseExceptionOnly ''KeyboardInterrupt''), failed_state)
   \<and> PrintExc (BaseExceptionOnly ''KeyboardInterrupt'') \<notin> set (trace failed_state)
   \<and> Prepare [] 50 (Some 2) \<notin> set (trace failed_state)"
  by (simp add: run_defs example_fields(1-17) interrupt_fields ready_state_def failed_state_def
      ready_trace_def new_stream_def compile_call_def engine_path_def engine_batch_def)

lemma broken_fields:
  "raises broken_vae_engine_world (NewVAEEngine p q) = Some (Exception ''engine load failed'')"
  "raises broken_vae_engine_world (FromPretrained p) = None"
  "raises broken_vae_engine_world (PipeTo d t) = None"
  "raises broken_vae_engine_world (NewStreamDiffusion ts t1 x1 y1 b n1) = None"
  "raises broken_vae_engine_world (LoadLcmLora l) = None"
  "raises broken_vae_engine_world FuseLora = None"
  "raises broken_vae_engine_world (TinyFromPretrained v) = None"
  "raises broken_vae_engine_world VaeTo = None"
  "raises broken_vae_engine_world ImportTensorrt = None"
  "raises broken_vae_engine_world NewCudaStream = None"
  "raises broken_vae_engine_world (NewUNetEngine p) = None"
  "raises broken_vae_engine_world (Prepare pr st g) = None"
  "path_exists broken_vae_engine_world = (\<lambda>p. True)"
  by (simp_all add: broken_vae_engine_world_def)

text \<open>
  Claim C3 says that after a failed acceleration setup \<^verbatim>\<open>stream.unet\<close> and
  \<^verbatim>\<open>stream.vae\<close> are the torch modules they were before the \<^verbatim>\<open>try\<close> block. The code does not
  restore them. With the three engines cached on disk and the constructor of the VAE engine
  raising, \<^verbatim>\<open>stream.unet\<close> has already been replaced by the TensorRT engine in line 354:
  \<^verbatim>\<open>_load_model\<close> prints that it falls back to normal mode and returns a stream whose UNet
  is the engine and whose VAE is the torch module.
\<close>

theorem fallback_keeps_engine_unet:
  "block [build_pipeline broken_vae_engine_world (init_fields example_args) example_args,
          fuse_lcm_lora broken_vae_engine_world example_args,
          replace_vae broken_vae_engine_world example_args] fresh
     = (Inr (), ready_state)
   \<and> unet (stream ready_state) = PipeUNet
   \<and> fst (load_model broken_vae_engine_world (init_fields example_args) example_args fresh)
     = Inr \<lparr>unet = UNet2DConditionModelEngine (unet_path (init_fields example_args) example_args),
            vae = torch_vae (AutoencoderTiny ''madebyollin/taesd''), stable_fast = False\<rparr>
   \<and> trace (snd (load_model broken_vae_engine_world (init_fields example_args) example_args fresh))
     = ready_trace @
       [ImportTensorrt, NewCudaStream,
        NewUNetEngine (unet_path (init_fields example_args) example_args),
        NewVAEEngine (vae_encoder_path (init_fields example_args) example_args)
          (vae_decoder_path (init_fields example_args) example_args),
        PrintExc (Exception ''engine load failed''),
        Print ''Acceleration has failed. Falling back to normal mode.'',
        Prepare [] 50 (Some 2)]"
  by (simp add: run_defs example_fields(1-17) broken_fields ready_state_def
      ready_trace_def new_stream_def)

lemma startswith_slash: "startswith s ''/'' = (s \<noteq> [] \<and> hd s = CHR ''/'')"
  by (cases s) auto

lemma prefix_not_abs:
  "\<not> startswith (model_id a) ''/'' \<Longrightarrow> \<not> startswith (create_prefix self a mx mn) ''/''"
  by (cases "model_id a") (simp_all add: create_prefix_def)

lemma prefix_no_trailing_slash:
  "mode self = ''txt2img'' \<or> mode self = ''img2img'' \<Longrightarrow>
     \<not> endswith (''engines'' @ ''/'' @ create_prefix self a mx mn) ''/''"
  by (auto simp: endswith_def create_prefix_def)

lemma join_engine_file:
  assumes "mode self = ''txt2img'' \<or> mode self = ''img2img''" and "\<not> startswith (model_id a) ''/''"
    and "\<not> startswith f ''/''"
  shows "path_join ''engines'' [create_prefix self a mx mn, f]
     = ''engines/'' @ create_prefix self a mx mn @ ''/'' @ f"
  using prefix_not_abs[OF assms(2), of self mx mn] prefix_no_trailing_slash[OF assms(1), of a mx mn] assms(3)
  by (simp add: path_join_def path_join2_def endswith_def)

text \<open>
  Claim C7. The prefix is the model id followed by the \<^verbatim>\<open>use_tiny_vae\<close> flag under the
  label \<^verbatim>\<open>lcm_lora\<close>, the \<^verbatim>\<open>use_lcm_lora\<close> flag under the label \<^verbatim>\<open>tiny_vae\<close>, the two
  batch sizes and the mode. The UNet engine path is built from the prefix with both batch
  sizes equal to \<^verbatim>\<open>batch_size\<close>; the VAE encoder and decoder paths use \<^verbatim>\<open>batch_size\<close> in
  mode \<^verbatim>\<open>txt2img\<close> and 1 in mode \<^verbatim>\<open>img2img\<close>. For a model id that is not an absolute path
  the UNet engine path is \<^verbatim>\<open>engines/<prefix>/unet.engine\<close>. The three paths depend only on the
  model id, the two flags, the batch size and the mode: configurations that agree on these
  have the same paths.
\<close>

theorem engine_paths:
  "create_prefix self a mx mn =
      model_id a @ ''--lcm_lora-'' @ (if use_tiny_vae a then ''True'' else ''False'')
        @ ''--tiny_vae-'' @ (if use_lcm_lora a then ''True'' else ''False'')
        @ ''--max_batch-'' @ str_int mx @ ''--min_batch-'' @ str_int mn @ ''--mode-'' @ mode self
   \<and> unet_path self a =
        path_join ''engines'' [create_prefix self a (batch_size self) (batch_size self), ''unet.engine'']
   \<and> (mode self = ''txt2img'' \<longrightarrow>
        vae_encoder_path self a =
          path_join ''engines'' [create_prefix self a (batch_size self) (batch_size self), ''vae_encoder.engine'']
        \<and> vae_decoder_path self a =
          path_join ''engines'' [create_prefix self a (batch_size self) (batch_size self), ''vae_decoder.engine''])
   \<and> (mode self = ''img2img'' \<longrightarrow>
        vae_encoder_path self a = path_join ''engines'' [create_prefix self a 1 1, ''vae_encoder.engine'']
        \<and> vae_decoder_path self a = path_join ''engines'' [create_prefix self a 1 1, ''vae_decoder.engine''])
   \<and> ((mode self = ''txt2img'' \<or> mode self = ''img2img'') \<and> \<not> startswith (model_id a) ''/'' \<longrightarrow>
        unet_path self a =
          ''engines/'' @ create_prefix self a (batch_size self) (batch_size self) @ ''/unet.engine'')
   \<and> (model_id a = model_id a' \<and> use_tiny_vae a = use_tiny_vae a' \<and> use_lcm_lora a = use_lcm_lora a'
        \<and> batch_size self = batch_size self' \<and> mode self = mode self' \<longrightarrow>
        unet_path self a = unet_path self' a' \<and> vae_encoder_path self a = vae_encoder_path self' a'
        \<and> vae_decoder_path self a = vae_decoder_path self' a')"
proof (intro conjI impI)
  show "create_prefix self a mx mn =
      model_id a @ ''--lcm_lora-'' @ (if use_tiny_vae a then ''True'' else ''False'')
        @ ''--tiny_vae-'' @ (if use_lcm_lora a then ''True'' else ''False'')
        @ ''--max_batch-'' @ str_int mx @ ''--min_batch-'' @ str_int mn @ ''--mode-'' @ mode self"
    by (simp add: create_prefix_def str_bool_def)
  show "unet_path self a =
        path_join ''engines'' [create_prefix self a (batch_size self) (batch_size self), ''unet.engine'']"
    by (simp add: unet_path_def engine_dir_def path_join_def)
  show "vae_encoder_path self a =
          path_join ''engines'' [create_prefix self a (batch_size self) (batch_size self), ''vae_encoder.engine'']"
    if "mode self = ''txt2img''"
    using that by (simp add: vae_encoder_path_def vae_batch_def engine_dir_def path_join_def)
  show "vae_decoder_path self a =
          path_join ''engines'' [create_prefix self a (batch_size self) (batch_size self), ''vae_decoder.engine'']"
    if "mode self = ''txt2img''"
    using that by (simp add: vae_decoder_path_def vae_batch_def engine_dir_def path_join_def)
  show "vae_encoder_path self a = path_join ''engines'' [create_prefix self a 1 1, ''vae_encoder.engine'']"
    if "mode self = ''img2img''"
    using that by (simp add: vae_encoder_path_def vae_batch_def engine_dir_def path_join_def)
  show "vae_decoder_path self a = path_join ''engines'' [create_prefix self a 1 1, ''vae_decoder.engine'']"
    if "mode self = ''img2img''"
    using that by (simp add: vae_decoder_path_def vae_batch_def engine_dir_def path_join_def)
  show "unet_path self a =
          ''engines/'' @ create_prefix self a (batch_size self) (batch_size self) @ ''/unet.engine''"
    if "(mode self = ''txt2img'' \<or> mode self = ''img2img'') \<and> \<not> startswith (model_id a) ''/''"
    using that join_engine_file[of self a "''unet.engine''" "batch_size self" "batch_size self"]
    by (simp add: unet_path_def engine_dir_def path_join_def)
  assume eq: "model_id a = model_id a' \<and> use_tiny_vae a = use_tiny_vae a' \<and> use_lcm_lora a = use_lcm_lora a'
        \<and> batch_size self = batch_size self' \<and> mode self = mode self'"
  then have "\<And>mx mn. create_prefix self a mx mn = create_prefix self' a' mx mn"
    by (simp add: create_prefix_def)
  with eq show "unet_path self a = unet_path self' a'"
    "vae_encoder_path self a = vae_encoder_path self' a'"
    "vae_decoder_path self a = vae_decoder_path self' a'"
    by (simp_all add: unet_path_def vae_encoder_path_def vae_decoder_path_def vae_batch_def)
qed

theorem engine_paths_witness:
  "mode (init_fields example_args) = ''img2img''
   \<and> \<not> startswith (model_id example_args) ''/''
   \<and> vae_encoder_path (init_fields example_args) example_args
      = path_join ''engines'' [create_prefix (init_fields example_args) example_args 1 1, ''vae_encoder.engine'']
   \<and> create_prefix (init_fields example_args) example_args 2 2
      = ''sd--lcm_lora-True--tiny_vae-True--max_batch-2--min_batch-2--mode-img2img''
   \<and> unet_path (init_fields example_args) example_args
      = ''engines/'' @ create_prefix (init_fields example_args) example_args 2 2 @ ''/unet.engine''"
proof -
  note t = engine_paths[of "init_fields example_args" example_args 2 2 example_args
      "init_fields example_args"]
  have m: "mode (init_fields example_args) = ''img2img''"
    and r: "\<not> startswith (model_id example_args) ''/''"
    by (simp_all add: example_fields)
  have s2: "str_int 2 = ''2''"
    by (simp add: str_int_def str_nat.simps[of 2] digit_char_def)
  from t have "create_prefix (init_fields example_args) example_args 2 2
      = ''sd--lcm_lora-True--tiny_vae-True--max_batch-2--min_batch-2--mode-img2img''"
    by (simp add: example_fields s2)
  moreover from t m have "vae_encoder_path (init_fields example_args) example_args
      = path_join ''engines'' [create_prefix (init_fields example_args) example_args 1 1, ''vae_encoder.engine'']"
    by blast
  moreover from t m r have "unet_path (init_fields example_args) example_args
      = ''engines/'' @ create_prefix (init_fields example_args) example_args
          (batch_size (init_fields example_args)) (batch_size (init_fields example_args)) @ ''/unet.engine''"
    by blast
  ultimately show ?thesis using m r by (simp add: example_fields)
qed

lemma keeps_call: "keeps (call w e)"
  by (simp add: keeps_def call_def split: option.split)

lemma keeps_ret: "keeps (ret v)"
  by (simp add: keeps_def ret_def)

lemma keeps_raise: "keeps (raise x)"
  by (simp add: keeps_def raise_def)

lemma keeps_bind: "keeps m \<Longrightarrow> (\<And>v. keeps (f v)) \<Longrightarrow> keeps (bind_prog m f)"
  by (auto simp: keeps_def bind_prog_def split: prod.split sum.split) (metis snd_conv)+

lemma keeps_block: "(\<And>c. c \<in> set cs \<Longrightarrow> keeps c) \<Longrightarrow> keeps (block cs)"
proof (induction cs)
  case Nil
  show ?case by (simp add: keeps_def)
next
  case (Cons c cs)
  have c: "keeps c" and cs: "keeps (block cs)" using Cons by simp_all
  show ?case
    unfolding keeps_def
  proof
    fix s
    show "obj (snd (block (c # cs) s)) = obj s"
    proof (cases "c s")
      case (Pair r s')
      have "obj s' = obj s" using c Pair unfolding keeps_def by (metis snd_conv)
      moreover have "obj (snd (block cs s')) = obj s'" using cs unfolding keeps_def by blast
      ultimately show ?thesis using Pair by (cases r) simp_all
    qed
  qed
qed

lemma keeps_reading: "(\<And>s0. keeps (f s0)) \<Longrightarrow> keeps (reading f)"
  by (simp add: keeps_def reading_def)

lemmas keeps_intros = keeps_call keeps_ret keeps_raise keeps_bind keeps_block keeps_reading

lemma keeps_prepare: "keeps (prepare w p n)"
  by (simp add: prepare_def keeps_call)

lemma keeps_postprocess_image: "keeps (postprocess_image w t)"
  unfolding postprocess_image_def
  by (intro keeps_reading) (auto intro!: keeps_intros split: list.split)

lemma keeps_txt2img: "keeps (txt2img w)"
  unfolding txt2img_def
  by (intro keeps_reading keeps_bind keeps_postprocess_image) (auto intro!: keeps_intros)

lemma keeps_preprocess_image: "keeps (preprocess_image w v)"
  unfolding preprocess_image_def
  by (intro keeps_reading keeps_bind) (auto intro!: keeps_intros split: pyval.split)

lemma keeps_img2img: "keeps (img2img w v)"
  unfolding img2img_def
  by (intro keeps_bind keeps_postprocess_image keeps_call keeps_ret)
     (auto intro!: keeps_intros keeps_preprocess_image split: pyval.split)

lemma keeps_call_wrapper: "keeps (call_wrapper w v)"
  unfolding call_wrapper_def
  by (intro keeps_reading) (simp add: keeps_img2img keeps_txt2img)

lemma init_batch_size:
  "fst (init w a) = Inr self' \<Longrightarrow>
     batch_size self' = int (length (t_index_list a)) * arg_frame_buffer_size a"
  by (auto simp: init_def split: prod.splits sum.splits)

lemma txt2img_batch_calls:
  assumes "1 < frame_buffer_size (obj s)"
  shows "\<exists>es. new_calls (txt2img w) s = Txt2ImgBatch (batch_size (obj s)) # es
           \<and> prefix es [TensorCpu (Txt2ImgBatchOut (batch_size (obj s))),
                         PostprocessImage (Cpu (Txt2ImgBatchOut (batch_size (obj s)))) ''pil'']"
  using assms
  by (simp add: new_calls_def txt2img_def postprocess_image_def reading_def bind_prog_def
      call_def ret_def raise_def split: option.split)

lemma fst_init:
  "fst (init_steps w a fresh) = Inr () \<Longrightarrow>
     fst (init w a) =
       Inr \<lparr>device = arg_device a, dtype = arg_dtype a, width = arg_width a,
             height = arg_height a, mode = arg_mode a,
             frame_buffer_size = arg_frame_buffer_size a,
             batch_size = int (length (t_index_list a)) * arg_frame_buffer_size a,
             wstream = stream (snd (init_steps w a fresh))\<rparr>"
  by (cases "init_steps w a fresh") (auto simp: init_def)

lemma init_example_result: "fst (init quiet_world example_args) = Inr example_wrapper"
proof -
  have 1: "fst (init_steps quiet_world example_args fresh) = Inr ()"
    by (simp add: run_defs example_fields vae_batch_def)
  have 2: "stream (snd (init_steps quiet_world example_args fresh)) = wstream example_wrapper"
    by (simp add: run_defs example_fields example_wrapper_def new_stream_def torch_vae_def
        vae_batch_def)
  have 3: "arg_device example_args = ''cuda''" "arg_dtype example_args = ''float16''"
    "arg_width example_args = 512" "arg_height example_args = 512"
    "arg_mode example_args = ''img2img''" "arg_frame_buffer_size example_args = 1"
    by (simp_all add: example_args_def)
  show ?thesis
    unfolding fst_init[OF 1] 2 3 example_fields
    by (simp add: example_wrapper_def)
qed

text \<open>
  Claim C5. A wrapper that \<^verbatim>\<open>__init__\<close> returns has \<^verbatim>\<open>batch_size\<close> equal to
  \<^verbatim>\<open>len(t_index_list) * frame_buffer_size\<close>. None of the methods \<^verbatim>\<open>prepare\<close>, \<^verbatim>\<open>__call__\<close>,
  \<^verbatim>\<open>txt2img\<close>, \<^verbatim>\<open>img2img\<close>, \<^verbatim>\<open>preprocess_image\<close> and \<^verbatim>\<open>postprocess_image\<close> changes it,
  whether the method returns or raises. With \<^verbatim>\<open>frame_buffer_size > 1\<close> the first call of
  \<^verbatim>\<open>txt2img\<close> is \<^verbatim>\<open>stream.txt2img_batch(self.batch_size)\<close>, and the only calls after it are
  those of \<^verbatim>\<open>postprocess_image\<close>.
\<close>

theorem batch_size_bookkeeping:
  "(fst (init w a) = Inr self' \<longrightarrow>
      batch_size self' = int (length (t_index_list a)) * arg_frame_buffer_size a)
   \<and> batch_size (obj (snd (prepare w p n s))) = batch_size (obj s)
   \<and> batch_size (obj (snd (call_wrapper w v s))) = batch_size (obj s)
   \<and> batch_size (obj (snd (txt2img w s))) = batch_size (obj s)
   \<and> batch_size (obj (snd (img2img w v s))) = batch_size (obj s)
   \<and> batch_size (obj (snd (preprocess_image w v s))) = batch_size (obj s)
   \<and> batch_size (obj (snd (postprocess_image w t s))) = batch_size (obj s)
   \<and> (1 < frame_buffer_size (obj s) \<longrightarrow>
        take 1 (new_calls (txt2img w) s) = [Txt2ImgBatch (batch_size (obj s))]
        \<and> prefix (drop 1 (new_calls (txt2img w) s))
             [TensorCpu (Txt2ImgBatchOut (batch_size (obj s))),
              PostprocessImage (Cpu (Txt2ImgBatchOut (batch_size (obj s)))) ''pil''])"
proof -
  have 1: "fst (init w a) = Inr self' \<longrightarrow>
      batch_size self' = int (length (t_index_list a)) * arg_frame_buffer_size a"
    using init_batch_size by blast
  have 2: "obj (snd (prepare w p n s)) = obj s" "obj (snd (call_wrapper w v s)) = obj s"
    "obj (snd (txt2img w s)) = obj s" "obj (snd (img2img w v s)) = obj s"
    "obj (snd (preprocess_image w v s)) = obj s" "obj (snd (postprocess_image w t s)) = obj s"
    using keeps_prepare keeps_call_wrapper keeps_txt2img keeps_img2img keeps_preprocess_image
      keeps_postprocess_image
    unfolding keeps_def by blast+
  have 3: "1 < frame_buffer_size (obj s) \<longrightarrow>
        take 1 (new_calls (txt2img w) s) = [Txt2ImgBatch (batch_size (obj s))]
        \<and> prefix (drop 1 (new_calls (txt2img w) s))
             [TensorCpu (Txt2ImgBatchOut (batch_size (obj s))),
              PostprocessImage (Cpu (Txt2ImgBatchOut (batch_size (obj s)))) ''pil'']"
  proof
    assume "1 < frame_buffer_size (obj s)"
    from txt2img_batch_calls[OF this, of w] obtain es where
      "new_calls (txt2img w) s = Txt2ImgBatch (batch_size (obj s)) # es"
      "prefix es [TensorCpu (Txt2ImgBatchOut (batch_size (obj s))),
                  PostprocessImage (Cpu (Txt2ImgBatchOut (batch_size (obj s)))) ''pil'']"
      by blast
    then show "take 1 (new_calls (txt2img w) s) = [Txt2ImgBatch (batch_size (obj s))]
        \<and> prefix (drop 1 (new_calls (txt2img w) s))
             [TensorCpu (Txt2ImgBatchOut (batch_size (obj s))),
              PostprocessImage (Cpu (Txt2ImgBatchOut (batch_size (obj s)))) ''pil'']"
      by simp
  qed
  show ?thesis using 1 3 by (simp add: 2)
qed

theorem batch_size_bookkeeping_witness:
  "fst (init quiet_world example_args) = Inr example_wrapper
   \<and> batch_size example_wrapper
       = int (length (t_index_list example_args)) * arg_frame_buffer_size example_args
   \<and> 1 < frame_buffer_size (obj \<lparr>trace = [], obj = batch_wrapper\<rparr>)
   \<and> take 1 (new_calls (txt2img quiet_world) \<lparr>trace = [], obj = batch_wrapper\<rparr>) = [Txt2ImgBatch 4]"
proof -
  note t = batch_size_bookkeeping[of quiet_world example_args example_wrapper _ _
      "\<lparr>trace = [], obj = batch_wrapper\<rparr>"]
  have f: "1 < frame_buffer_size (obj \<lparr>trace = [], obj = batch_wrapper\<rparr>)"
    "batch_size (obj \<lparr>trace = [], obj = batch_wrapper\<rparr>) = 4"
    by (simp_all add: batch_wrapper_def)
  from t init_example_result f show ?thesis by simp
qed

text \<open>
  Claim C2 says that \<^verbatim>\<open>__call__\<close> returns an image, or a list of images, and nothing
  else. In mode \<^verbatim>\<open>img2img\<close> the code returns a pair: the image and the skip probability
  that the stream returned with the image tensor (line 142).
\<close>

theorem call_img2img_returns_pair:
  "mode example_wrapper = ''img2img'' \<and> frame_buffer_size example_wrapper = 1
   \<and> fst (call_wrapper quiet_world (Tensor (UserTensor 0)) \<lparr>trace = [], obj = example_wrapper\<rparr>)
       = Inr (Tuple2 (SingleImage (PostImage (Cpu (StreamCallOut (Tensor (UserTensor 0)))) 0))
                (SkipProb (Tensor (UserTensor 0))))"
  by (simp add: call_wrapper_def img2img_def postprocess_image_def reading_def bind_prog_def
      call_def ret_def raise_def decoded_def example_wrapper_def quiet_world_def)

lemma img2img_tensor:
  "take 1 (new_calls (img2img w (Tensor t)) s) = [StreamCall (Tensor t)]
   \<and> prefix (drop 1 (new_calls (img2img w (Tensor t)) s))
        [TensorCpu (StreamCallOut (Tensor t)), PostprocessImage (Cpu (StreamCallOut (Tensor t))) ''pil'']"
  by (simp add: new_calls_def img2img_def postprocess_image_def reading_def bind_prog_def
      call_def ret_def raise_def split: option.split list.split)

lemma img2img_pil_aux:
  assumes "img2img w (Pil i) s = (r0, s')"
  shows "(StreamCall y \<in> set (drop (length (trace s)) (trace s')) \<longrightarrow>
      y = Tensor (on_device (obj s) (processed (obj s) (Pil (rgb_resized (obj s) i))))
      \<and> takeWhile (\<lambda>e. e \<noteq> StreamCall y) (drop (length (trace s)) (trace s')) =
          [ImageConvert i ''RGB'',
           ImageResize (Converted ''RGB'' i) (width (obj s)) (height (obj s)),
           ProcessorPreprocess (Pil (rgb_resized (obj s) i)) (height (obj s)) (width (obj s)),
           TensorTo (processed (obj s) (Pil (rgb_resized (obj s) i))) (device (obj s)) (dtype (obj s))])
   \<and> (r0 = Inr q0 \<longrightarrow>
        StreamCall (Tensor (on_device (obj s) (processed (obj s) (Pil (rgb_resized (obj s) i)))))
          \<in> set (drop (length (trace s)) (trace s')))"
  using assms
  by (auto simp: img2img_def preprocess_image_def postprocess_image_def reading_def
      bind_prog_def call_def ret_def raise_def on_device_def processed_def rgb_resized_def
      split: option.splits list.splits if_splits)

lemma img2img_pil:
  "(StreamCall y \<in> set (new_calls (img2img w (Pil i)) s) \<longrightarrow>
      y = Tensor (on_device (obj s) (processed (obj s) (Pil (rgb_resized (obj s) i))))
      \<and> takeWhile (\<lambda>e. e \<noteq> StreamCall y) (new_calls (img2img w (Pil i)) s) =
          [ImageConvert i ''RGB'',
           ImageResize (Converted ''RGB'' i) (width (obj s)) (height (obj s)),
           ProcessorPreprocess (Pil (rgb_resized (obj s) i)) (height (obj s)) (width (obj s)),
           TensorTo (processed (obj s) (Pil (rgb_resized (obj s) i))) (device (obj s)) (dtype (obj s))])
   \<and> (fst (img2img w (Pil i) s) = Inr r \<longrightarrow>
        StreamCall (Tensor (on_device (obj s) (processed (obj s) (Pil (rgb_resized (obj s) i)))))
          \<in> set (new_calls (img2img w (Pil i)) s))"
  using img2img_pil_aux[of w i s "fst (img2img w (Pil i) s)" "snd (img2img w (Pil i) s)" y r]
  by (simp add: new_calls_def)

lemma img2img_str_aux:
  assumes "img2img w (Str p) s = (r0, s')"
  shows "(StreamCall y \<in> set (drop (length (trace s)) (trace s')) \<longrightarrow>
      y = Tensor (on_device (obj s) (processed (obj s)
                   (Pil (rgb_resized (obj s) (rgb_resized (obj s) (Opened p))))))
      \<and> takeWhile (\<lambda>e. e \<noteq> StreamCall y) (drop (length (trace s)) (trace s')) =
          [ImageOpen p,
           ImageConvert (Opened p) ''RGB'',
           ImageResize (Converted ''RGB'' (Opened p)) (width (obj s)) (height (obj s)),
           ImageConvert (rgb_resized (obj s) (Opened p)) ''RGB'',
           ImageResize (Converted ''RGB'' (rgb_resized (obj s) (Opened p)))
             (width (obj s)) (height (obj s)),
           ProcessorPreprocess (Pil (rgb_resized (obj s) (rgb_resized (obj s) (Opened p))))
             (height (obj s)) (width (obj s)),
           TensorTo (processed (obj s) (Pil (rgb_resized (obj s) (rgb_resized (obj s) (Opened p)))))
             (device (obj s)) (dtype (obj s))])
   \<and> (r0 = Inr q0 \<longrightarrow>
        StreamCall (Tensor (on_device (obj s) (processed (obj s)
                     (Pil (rgb_resized (obj s) (rgb_resized (obj s) (Opened p)))))))
          \<in> set (drop (length (trace s)) (trace s')))"
  using assms
  by (auto simp: img2img_def preprocess_image_def postprocess_image_def reading_def
      bind_prog_def call_def ret_def raise_def on_device_def processed_def rgb_resized_def
      split: option.splits list.splits if_splits)

lemma img2img_str:
  "(StreamCall y \<in> set (new_calls (img2img w (Str p)) s) \<longrightarrow>
      y = Tensor (on_device (obj s) (processed (obj s)
                   (Pil (rgb_resized (obj s) (rgb_resized (obj s) (Opened p))))))
      \<and> takeWhile (\<lambda>e. e \<noteq> StreamCall y) (new_calls (img2img w (Str p)) s) =
          [ImageOpen p,
           ImageConvert (Opened p) ''RGB'',
           ImageResize (Converted ''RGB'' (Opened p)) (width (obj s)) (height (obj s)),
           ImageConvert (rgb_resized (obj s) (Opened p)) ''RGB'',
           ImageResize (Converted ''RGB'' (rgb_resized (obj s) (Opened p)))
             (width (obj s)) (height (obj s)),
           ProcessorPreprocess (Pil (rgb_resized (obj s) (rgb_resized (obj s) (Opened p))))
             (height (obj s)) (width (obj s)),
           TensorTo (processed (obj s) (Pil (rgb_resized (obj s) (rgb_resized (obj s) (Opened p)))))
             (device (obj s)) (dtype (obj s))])
   \<and> (fst (img2img w (Str p) s) = Inr r \<longrightarrow>
        StreamCall (Tensor (on_device (obj s) (processed (obj s)
                     (Pil (rgb_resized (obj s) (rgb_resized (obj s) (Opened p)))))))
          \<in> set (new_calls (img2img w (Str p)) s))"
  using img2img_str_aux[of w p s "fst (img2img w (Str p) s)" "snd (img2img w (Str p) s)" y r]
  by (simp add: new_calls_def)

text \<open>
  Claim C1, with the exceptions told apart as \<^verbatim>\<open>except Exception\<close> does. Let the steps
  before the \<^verbatim>\<open>try\<close> block have returned, in any acceleration mode. If the acceleration
  setup raises an instance of \<^verbatim>\<open>Exception\<close>, at any of its calls, then \<^verbatim>\<open>_load_model\<close> prints
  the traceback and the fallback message, calls \<^verbatim>\<open>stream.prepare\<close>, and the exception does not
  reach the caller: \<^verbatim>\<open>_load_model\<close> returns the stream as the failed setup left it, unless
  \<^verbatim>\<open>stream.prepare\<close> itself raises. If the acceleration setup raises an exception that is
  not an instance of \<^verbatim>\<open>Exception\<close>, that exception reaches the caller of \<^verbatim>\<open>_load_model\<close>:
  nothing is printed and \<^verbatim>\<open>stream.prepare\<close> is not called.
\<close>

theorem acceleration_failure_caught:
  assumes pre: "block [build_pipeline w self a, fuse_lcm_lora w a, replace_vae w a] s = (Inr (), s1)"
  shows "(accelerate w self a s1 = (Inl (Exception m), s2) \<longrightarrow>
            load_model w self a s =
              ((case raises w (Prepare [] 50 (Some 2)) of None \<Rightarrow> Inr (stream s2) | Some x \<Rightarrow> Inl x),
               s2\<lparr>trace := trace s2 @
                  [PrintExc (Exception m),
                   Print ''Acceleration has failed. Falling back to normal mode.'',
                   Prepare [] 50 (Some 2)]\<rparr>))
         \<and> (accelerate w self a s1 = (Inl (BaseExceptionOnly m), s2) \<longrightarrow>
              load_model w self a s = (Inl (BaseExceptionOnly m), s2))"
proof -
  have "load_steps w self a s =
      block ([build_pipeline w self a, fuse_lcm_lora w a, replace_vae w a] @
             [try_except_Exception (accelerate w self a) fallback, call w (Prepare [] 50 (Some 2))]) s"
    by (simp add: load_steps_def)
  also have "\<dots> = block [try_except_Exception (accelerate w self a) fallback,
                           call w (Prepare [] 50 (Some 2))] s1"
    unfolding block_append pre by simp
  finally have steps: "load_steps w self a s =
      block [try_except_Exception (accelerate w self a) fallback,
             call w (Prepare [] 50 (Some 2))] s1" .
  have caught: "load_model w self a s =
        ((case raises w (Prepare [] 50 (Some 2)) of None \<Rightarrow> Inr (stream s2) | Some x \<Rightarrow> Inl x),
         s2\<lparr>trace := trace s2 @
            [PrintExc (Exception m),
             Print ''Acceleration has failed. Falling back to normal mode.'',
             Prepare [] 50 (Some 2)]\<rparr>)"
    if failed: "accelerate w self a s1 = (Inl (Exception m), s2)"
  proof -
    have "load_steps w self a s =
        ((case raises w (Prepare [] 50 (Some 2)) of None \<Rightarrow> Inr () | Some x \<Rightarrow> Inl x),
         s2\<lparr>trace := trace s2 @
            [PrintExc (Exception m),
             Print ''Acceleration has failed. Falling back to normal mode.'',
             Prepare [] 50 (Some 2)]\<rparr>)"
      unfolding steps
      by (simp add: try_except_Exception_def failed fallback_def emit_def call_def split: option.split)
    then show ?thesis
      by (simp add: load_model_def bind_prog_def reading_def ret_def split: option.split)
  qed
  have passed: "load_model w self a s = (Inl (BaseExceptionOnly m), s2)"
    if failed: "accelerate w self a s1 = (Inl (BaseExceptionOnly m), s2)"
  proof -
    have "load_steps w self a s = (Inl (BaseExceptionOnly m), s2)"
      unfolding steps by (simp add: try_except_Exception_def failed)
    then show ?thesis
      by (simp add: load_model_def bind_prog_def)
  qed
  from caught passed show ?thesis by blast
qed

lemma example_ready_interrupt:
  "block [build_pipeline interrupt_world (init_fields example_args) example_args,
          fuse_lcm_lora interrupt_world example_args, replace_vae interrupt_world example_args] fresh
     = (Inr (), ready_state)"
  by (simp add: run_defs example_fields(1-17) interrupt_fields ready_state_def ready_trace_def
      new_stream_def)

lemma example_interrupted:
  "accelerate interrupt_world (init_fields example_args) example_args ready_state
     = (Inl (BaseExceptionOnly ''KeyboardInterrupt''), failed_state)"
  by (simp add: run_defs example_fields(1-17) interrupt_fields ready_state_def failed_state_def
      compile_call_def engine_path_def engine_batch_def)

theorem acceleration_failure_caught_witness:
  "block [build_pipeline failing_world (init_fields example_args) example_args,
          fuse_lcm_lora failing_world example_args, replace_vae failing_world example_args] fresh
     = (Inr (), ready_state)
   \<and> accelerate failing_world (init_fields example_args) example_args ready_state
     = (Inl (Exception ''engine build failed''), failed_state)
   \<and> load_model failing_world (init_fields example_args) example_args fresh =
       (Inr (stream failed_state),
        failed_state\<lparr>trace := trace failed_state @
          [PrintExc (Exception ''engine build failed''),
           Print ''Acceleration has failed. Falling back to normal mode.'',
           Prepare [] 50 (Some 2)]\<rparr>)
   \<and> block [build_pipeline interrupt_world (init_fields example_args) example_args,
          fuse_lcm_lora interrupt_world example_args, replace_vae interrupt_world example_args] fresh
     = (Inr (), ready_state)
   \<and> accelerate interrupt_world (init_fields example_args) example_args ready_state
     = (Inl (BaseExceptionOnly ''KeyboardInterrupt''), failed_state)
   \<and> load_model interrupt_world (init_fields example_args) example_args (fresh :: lstate)
     = (Inl (BaseExceptionOnly ''KeyboardInterrupt''), failed_state)"
proof -
  note c = acceleration_failure_caught[OF example_ready,
      of "''engine build failed''" failed_state, THEN conjunct1]
  note p = acceleration_failure_caught[OF example_ready_interrupt,
      of "''KeyboardInterrupt''" failed_state, THEN conjunct2]
  from c example_failed have 1:
    "load_model failing_world (init_fields example_args) example_args fresh =
       (Inr (stream failed_state),
        failed_state\<lparr>trace := trace failed_state @
          [PrintExc (Exception ''engine build failed''),
           Print ''Acceleration has failed. Falling back to normal mode.'',
           Prepare [] 50 (Some 2)]\<rparr>)"
    by (simp add: failing_fields)
  from p example_interrupted have 2:
    "load_model interrupt_world (init_fields example_args) example_args (fresh :: lstate)
       = (Inl (BaseExceptionOnly ''KeyboardInterrupt''), failed_state)"
    by blast
  from 1 2 example_ready example_failed example_ready_interrupt example_interrupted
  show ?thesis by blast
qed

lemma img2img_quiet:
  assumes "\<forall>e. raises w e = None"
  shows "new_calls (img2img w (Tensor t)) s =
          [StreamCall (Tensor t), TensorCpu (StreamCallOut (Tensor t)),
           PostprocessImage (Cpu (StreamCallOut (Tensor t))) ''pil'']"
    and "new_calls (img2img w (Pil i)) s =
          [ImageConvert i ''RGB'',
           ImageResize (Converted ''RGB'' i) (width (obj s)) (height (obj s)),
           ProcessorPreprocess (Pil (rgb_resized (obj s) i)) (height (obj s)) (width (obj s)),
           TensorTo (processed (obj s) (Pil (rgb_resized (obj s) i))) (device (obj s)) (dtype (obj s)),
           StreamCall (Tensor (on_device (obj s) (processed (obj s) (Pil (rgb_resized (obj s) i))))),
           TensorCpu (StreamCallOut
             (Tensor (on_device (obj s) (processed (obj s) (Pil (rgb_resized (obj s) i)))))),
           PostprocessImage (Cpu (StreamCallOut
             (Tensor (on_device (obj s) (processed (obj s) (Pil (rgb_resized (obj s) i))))))) ''pil'']"
    and "new_calls (img2img w (Str p)) s =
          [ImageOpen p,
           ImageConvert (Opened p) ''RGB'',
           ImageResize (Converted ''RGB'' (Opened p)) (width (obj s)) (height (obj s)),
           ImageConvert (rgb_resized (obj s) (Opened p)) ''RGB'',
           ImageResize (Converted ''RGB'' (rgb_resized (obj s) (Opened p)))
             (width (obj s)) (height (obj s)),
           ProcessorPreprocess (Pil (rgb_resized (obj s) (rgb_resized (obj s) (Opened p))))
             (height (obj s)) (width (obj s)),
           TensorTo (processed (obj s) (Pil (rgb_resized (obj s) (rgb_resized (obj s) (Opened p)))))
             (device (obj s)) (dtype (obj s)),
           StreamCall (Tensor (on_device (obj s) (processed (obj s)
             (Pil (rgb_resized (obj s) (rgb_resized (obj s) (Opened p))))))),
           TensorCpu (StreamCallOut (Tensor (on_device (obj s) (processed (obj s)
             (Pil (rgb_resized (obj s) (rgb_resized (obj s) (Opened p)))))))),
           PostprocessImage (Cpu (StreamCallOut (Tensor (on_device (obj s) (processed (obj s)
             (Pil (rgb_resized (obj s) (rgb_resized (obj s) (Opened p))))))))) ''pil'']"
  using assms
  by (simp_all add: new_calls_def img2img_def preprocess_image_def postprocess_image_def reading_def
      bind_prog_def call_def ret_def raise_def on_device_def processed_def rgb_resized_def
      split: list.split)

lemma runs_conj:
  assumes "runs c Q1" and "runs c Q2"
  shows "runs c (\<lambda>r es. Q1 r es \<and> Q2 r es)"
  unfolding runs_def
proof
  fix s
  from assms(1) obtain es1 where 1: "trace (snd (c s)) = trace s @ es1" "Q1 (fst (c s)) es1"
    unfolding runs_def by blast
  from assms(2) obtain es2 where 2: "trace (snd (c s)) = trace s @ es2" "Q2 (fst (c s)) es2"
    unfolding runs_def by blast
  from 1(1) 2(1) have "es1 = es2" by simp
  with 1 2 show "\<exists>es. trace (snd (c s)) = trace s @ es \<and> Q1 (fst (c s)) es \<and> Q2 (fst (c s)) es"
    by blast
qed

lemma spec_build_pipeline:
  "runs (build_pipeline w self a)
     (\<lambda>r es. (\<forall>e\<in>set es. phase e = 1) \<and> (r = Inr () \<longrightarrow> es = pipeline_calls self a))"
  by (auto simp: runs_def build_pipeline_def call_def assign_def pipeline_calls_def
      split: option.split)

lemma spec_fuse_calls:
  "runs (fuse_lcm_lora w a)
     (\<lambda>r es. (\<forall>e\<in>set es. phase e = 2) \<and> (r = Inr () \<longrightarrow> es = lora_calls a))"
proof (rule runs_weaken[OF spec_fuse])
  fix r es
  assume s: "fuse_spec a r es"
  have "es = lora_calls a" if "r = Inr ()"
  proof (cases "lora_wanted a")
    case True
    with fuse_specD(4)[OF s] that show ?thesis by (simp add: lora_calls_def)
  next
    case False
    with fuse_specD(2)[OF s] show ?thesis by (auto simp: lora_calls_def)
  qed
  with fuse_specD(1)[OF s]
  show "(\<forall>e\<in>set es. phase e = 2) \<and> (r = Inr () \<longrightarrow> es = lora_calls a)" by blast
qed

lemma spec_replace_vae:
  "runs (replace_vae w a)
     (\<lambda>r es. (\<forall>e\<in>set es. phase e = 3) \<and> (r = Inr () \<longrightarrow> es = vae_calls a))"
  by (auto simp: runs_def replace_vae_def py_if_def call_def assign_def vae_calls_def
      split: option.split)

lemma any_closed: "closed (\<lambda>es. True)"
  by (simp add: closed_def)

lemma entered_accelerate:
  "runs (accelerate w self a)
     (\<lambda>r es. take 1 es = accel_first a \<and> (accel_first a = [] \<longrightarrow> r = Inr ()))"
proof -
  consider (x) "acceleration a = ''xformers''" | (t) "acceleration a = ''tensorrt''"
    | (s) "acceleration a = ''sfast''"
    | (n) "acceleration a \<noteq> ''xformers''" "acceleration a \<noteq> ''tensorrt''"
          "acceleration a \<noteq> ''sfast''"
    by blast
  then show ?thesis
  proof cases
    case x
    then show ?thesis
      by (auto simp: runs_def accelerate_def py_if_def call_def accel_first_def split: option.split)
  next
    case s
    then show ?thesis
      by (auto simp: runs_def accelerate_def py_if_def call_def assign_def emit_def accel_first_def
          split: option.split)
  next
    case n
    then show ?thesis
      by (simp add: runs_def accelerate_def py_if_def accel_first_def)
  next
    case t
    have rest: "runs (block [build_unet_engine w self a, build_vae_decoder_engine w self a,
                  build_vae_encoder_engine w self a, swap_engines w self a]) (\<lambda>r es. True)"
      using emits_block[OF any_closed, of "[build_unet_engine w self a,
          build_vae_decoder_engine w self a, build_vae_encoder_engine w self a,
          swap_engines w self a]"]
      unfolding emits_def
      by (auto simp: build_unet_engine_def build_vae_decoder_engine_def
          build_vae_encoder_engine_def swap_engines_def
          intro!: emits_intros[unfolded emits_def] any_closed)
    have trt: "runs (block [call w ImportTensorrt, build_unet_engine w self a,
                  build_vae_decoder_engine w self a, build_vae_encoder_engine w self a,
                  swap_engines w self a]) (\<lambda>r es. take 1 es = [ImportTensorrt])"
      by (rule runs_seq[OF runs_call rest]) simp_all
    have last: "runs (block [py_if (acceleration a = ''sfast'')
                  [call w ImportSfast, call w AccelerateSfast,
                   assign (\<lambda>st. st\<lparr>stable_fast := True\<rparr>),
                   emit (Print ''StableFast acceleration enabled.'')]]) (\<lambda>r es. es = [])"
      using t by (simp add: py_if_def runs_def)
    have mid: "runs (block [py_if (acceleration a = ''tensorrt'')
                  [call w ImportTensorrt, build_unet_engine w self a,
                   build_vae_decoder_engine w self a, build_vae_encoder_engine w self a,
                   swap_engines w self a],
                 py_if (acceleration a = ''sfast'')
                  [call w ImportSfast, call w AccelerateSfast,
                   assign (\<lambda>st. st\<lparr>stable_fast := True\<rparr>),
                   emit (Print ''StableFast acceleration enabled.'')]])
               (\<lambda>r es. take 1 es = [ImportTensorrt])"
      by (rule runs_seq[OF _ last, where ?Q1.0 = "\<lambda>r es. take 1 es = [ImportTensorrt]"])
         (use t trt in \<open>simp_all add: py_if_def\<close>)
    have first: "runs (py_if (acceleration a = ''xformers'') [call w EnableXformers])
               (\<lambda>r es. es = [] \<and> r = Inr ())"
      using t by (simp add: py_if_def runs_def)
    have "runs (accelerate w self a) (\<lambda>r es. take 1 es = [ImportTensorrt])"
      unfolding accelerate_def
      by (rule runs_seq[OF first mid]) simp_all
    then show ?thesis
      by (rule runs_weaken) (use t in \<open>simp add: accel_first_def\<close>)
  qed
qed

lemma take1_append: "take 1 es1 = xs \<Longrightarrow> xs \<noteq> [] \<Longrightarrow> take 1 (es1 @ es2) = xs"
  by (cases es1) auto

lemma spec_try:
  "runs (try_except_Exception (accelerate w self a) fallback)
     (\<lambda>r es. (\<forall>e\<in>set es. phase e = 4) \<and> take 1 es = accel_first a)"
proof (rule runs_try[OF runs_conj[OF only_accelerate[unfolded emits_def] entered_accelerate]
      only_fallback[unfolded emits_def]])
  fix m es1 r es2
  assume 1: "(\<forall>e\<in>set es1. phase e = 4)
      \<and> take 1 es1 = accel_first a \<and> (accel_first a = [] \<longrightarrow> Inl (Exception m) = Inr ())"
    and 2: "\<forall>e\<in>set es2. phase e = 4"
  from 1 have "accel_first a \<noteq> []" by auto
  with 1 have "take 1 (es1 @ es2) = accel_first a" by (intro take1_append) simp_all
  with 1 2 show "(\<forall>e\<in>set (es1 @ es2). phase e = 4) \<and> take 1 (es1 @ es2) = accel_first a"
    by auto
qed auto

lemma spec_tail:
  "runs (block [try_except_Exception (accelerate w self a) fallback, call w (Prepare [] 50 (Some 2))])
     (reached [] a)"
proof -
  have p: "runs (block [call w (Prepare [] 50 (Some 2))]) (\<lambda>r es. es = [Prepare [] 50 (Some 2)])"
    by (rule runs_seq[OF runs_call runs_block_Nil]) simp_all
  show ?thesis
  proof (rule runs_seq[OF spec_try p])
    fix e es1
    assume 1: "(\<forall>e\<in>set es1. phase e = 4) \<and> take 1 es1 = accel_first a"
    then have "Prepare [] 50 (Some 2) \<notin> set es1" by fastforce
    then show "reached [] a (Inl e) es1" by (simp add: reached_def)
  next
    fix u :: unit and es1 r es2
    assume "(\<forall>e\<in>set es1. phase e = 4) \<and> take 1 es1 = accel_first a"
      "es2 = [Prepare [] 50 (Some 2)]"
    then show "reached [] a r (es1 @ es2)" by (simp add: reached_def)
  qed
qed

lemma reached_step:
  assumes c: "runs c (\<lambda>r es. (\<forall>e\<in>set es. phase e = k) \<and> (r = Inr () \<longrightarrow> es = cs))"
    and k: "k \<noteq> 5"
    and rest: "runs (block rest) (reached pre a)"
  shows "runs (block (c # rest)) (reached (cs @ pre) a)"
proof (rule runs_seq[OF c rest])
  fix e :: exn and es1
  assume 1: "(\<forall>e\<in>set es1. phase e = k) \<and> ((Inl e :: exn + unit) = Inr () \<longrightarrow> es1 = cs)"
  have "Prepare [] 50 (Some 2) \<notin> set es1"
  proof
    assume "Prepare [] 50 (Some 2) \<in> set es1"
    with 1 have "phase (Prepare [] 50 (Some 2)) = k" by blast
    with k show False by simp
  qed
  then show "reached (cs @ pre) a (Inl e :: exn + unit) es1" by (simp add: reached_def)
next
  fix u :: unit and es1 and r :: "exn + unit" and es2
  assume 1: "(\<forall>e\<in>set es1. phase e = k) \<and> (Inr u = Inr () \<longrightarrow> es1 = cs)"
    and 2: "reached pre a r es2"
  from 1 have es1: "es1 = cs" and ph: "\<forall>e\<in>set es1. phase e = k" by simp_all
  have n: "Prepare [] 50 (Some 2) \<notin> set es1"
  proof
    assume "Prepare [] 50 (Some 2) \<in> set es1"
    with ph have "phase (Prepare [] 50 (Some 2)) = k" by blast
    with k show False by simp
  qed
  show "reached (cs @ pre) a r (es1 @ es2)"
    unfolding reached_def
  proof
    assume "Prepare [] 50 (Some 2) \<in> set (es1 @ es2) \<or> (\<exists>v. r = Inr v)"
    with n have "Prepare [] 50 (Some 2) \<in> set es2 \<or> (\<exists>v. r = Inr v)" by simp
    with 2 obtain es4 where "es2 = pre @ es4 @ [Prepare [] 50 (Some 2)]"
      "\<forall>e\<in>set es4. phase e = 4" "take 1 es4 = accel_first a"
      unfolding reached_def by blast
    with es1 show "\<exists>es4. es1 @ es2 = (cs @ pre) @ es4 @ [Prepare [] 50 (Some 2)]
        \<and> (\<forall>e\<in>set es4. phase e = 4) \<and> take 1 es4 = accel_first a"
      by simp
  qed
qed

lemma reached_load_steps:
  "runs (load_steps w self a) (reached (pipeline_calls self a @ lora_calls a @ vae_calls a) a)"
proof -
  have 3: "runs (block [replace_vae w a, try_except_Exception (accelerate w self a) fallback,
                        call w (Prepare [] 50 (Some 2))]) (reached (vae_calls a @ []) a)"
    by (rule reached_step[OF spec_replace_vae _ spec_tail]) simp
  have 2: "runs (block [fuse_lcm_lora w a, replace_vae w a,
                        try_except_Exception (accelerate w self a) fallback,
                        call w (Prepare [] 50 (Some 2))])
             (reached (lora_calls a @ vae_calls a @ []) a)"
    by (rule reached_step[OF spec_fuse_calls _ 3]) simp
  have 1: "runs (load_steps w self a)
             (reached (pipeline_calls self a @ lora_calls a @ vae_calls a @ []) a)"
    unfolding load_steps_def
    by (rule reached_step[OF spec_build_pipeline _ 2]) simp
  then show ?thesis by simp
qed

lemma reached_bind_silent:
  assumes m: "runs m (reached P a)"
    and f: "\<And>v. runs (f v) (\<lambda>r es. es = [] \<and> (\<exists>u. r = Inr u))"
  shows "runs (bind_prog m f) (reached P a)"
  by (rule runs_bind[OF m f]) (auto simp: reached_def)

lemma reached_load_model:
  "runs (load_model w self a) (reached (pipeline_calls self a @ lora_calls a @ vae_calls a) a)"
  unfolding load_model_def
  by (rule reached_bind_silent[OF reached_load_steps]) (simp add: runs_def reading_def ret_def)

lemma constructed_init_steps:
  "runs (init_steps w a)
     (\<lambda>r es. Prepare [] 50 (Some 2) \<in> set es \<or> (\<exists>v. r = Inr v) \<longrightarrow> constructed a es)"
proof -
  have first: "runs (bind_prog (load_model w (init_fields a) a) (\<lambda>st. assign (\<lambda>_. st)))
      (reached (pipeline_calls (init_fields a) a @ lora_calls a @ vae_calls a) a)"
    by (rule reached_bind_silent[OF reached_load_model]) (simp add: runs_def assign_def)
  have "emits (\<lambda>es. \<forall>e\<in>set es. phase e = 6)
     (block [case device_ids a of None \<Rightarrow> block []
          | Some ids \<Rightarrow> block [call w (NewDataParallel ids),
                               assign (\<lambda>st. st\<lparr>unet := DataParallel (unet st) ids\<rparr>)],
        py_if (enable_similar_image_filter a)
          [call w (EnableSimilarImageFilter (similar_image_filter_threshold a))]])"
    by (intro emits_block closed_all) (auto intro!: emits_intros closed_all split: option.split)
  then have rest: "runs
     (block [case device_ids a of None \<Rightarrow> block []
          | Some ids \<Rightarrow> block [call w (NewDataParallel ids),
                               assign (\<lambda>st. st\<lparr>unet := DataParallel (unet st) ids\<rparr>)],
        py_if (enable_similar_image_filter a)
          [call w (EnableSimilarImageFilter (similar_image_filter_threshold a))]])
     (\<lambda>r es. \<forall>e\<in>set es. phase e = 6)"
    by (simp add: emits_def)
  show ?thesis
    unfolding init_steps_def
  proof (rule runs_seq[OF first rest])
    fix e :: exn and es1
    assume 1: "reached (pipeline_calls (init_fields a) a @ lora_calls a @ vae_calls a) a
        (Inl e :: exn + unit) es1"
    show "Prepare [] 50 (Some 2) \<in> set es1 \<or> (\<exists>v. (Inl e :: exn + unit) = Inr v)
        \<longrightarrow> constructed a es1"
    proof
      assume "Prepare [] 50 (Some 2) \<in> set es1 \<or> (\<exists>v. (Inl e :: exn + unit) = Inr v)"
      with 1 obtain es4 where
        "es1 = (pipeline_calls (init_fields a) a @ lora_calls a @ vae_calls a) @ es4
            @ [Prepare [] 50 (Some 2)]"
        "\<forall>e\<in>set es4. phase e = 4" "take 1 es4 = accel_first a"
        unfolding reached_def by blast
      then show "constructed a es1"
        unfolding constructed_def by (intro exI[of _ es4] exI[of _ "[]"]) simp
    qed
  next
    fix u :: unit and es1 and r :: "exn + unit" and es2
    assume 1: "reached (pipeline_calls (init_fields a) a @ lora_calls a @ vae_calls a) a
        (Inr u :: exn + unit) es1"
      and 2: "\<forall>e\<in>set es2. phase e = 6"
    from 1 obtain es4 where
      "es1 = (pipeline_calls (init_fields a) a @ lora_calls a @ vae_calls a) @ es4
          @ [Prepare [] 50 (Some 2)]"
      "\<forall>e\<in>set es4. phase e = 4" "take 1 es4 = accel_first a"
      unfolding reached_def by blast
    with 2 have "constructed a (es1 @ es2)"
      unfolding constructed_def by (intro exI[of _ es4] exI[of _ es2]) simp
    then show "Prepare [] 50 (Some 2) \<in> set (es1 @ es2) \<or> (\<exists>v. r = Inr v)
        \<longrightarrow> constructed a (es1 @ es2)"
      by simp
  qed
qed

lemma fst_init_Inr: "fst (init w a) = Inr self' \<Longrightarrow> \<exists>v. fst (init_steps w a fresh) = Inr v"
  by (cases "init_steps w a fresh") (auto simp: init_def split: sum.splits)

lemma constructed_init:
  assumes "Prepare [] 50 (Some 2) \<in> set (snd (init w a)) \<or> fst (init w a) = Inr self'"
  shows "constructed a (snd (init w a))"
proof -
  from constructed_init_steps[of w a] obtain es where
    es: "trace (snd (init_steps w a fresh)) = trace fresh @ es"
    and q: "Prepare [] 50 (Some 2) \<in> set es \<or> (\<exists>v. fst (init_steps w a fresh) = Inr v)
        \<longrightarrow> constructed a es"
    unfolding runs_def by blast
  from es have eq: "snd (init w a) = es" by (simp add: snd_init fresh_def)
  from assms fst_init_Inr[of w a self'] eq q show ?thesis by auto
qed

lemma filter_phase:
  "\<forall>e\<in>set es. phase e = k \<Longrightarrow> filter (\<lambda>e. phase e = j) es = (if j = k then es else [])"
  by (induction es) auto

lemma phase_calls:
  "\<forall>e\<in>set (pipeline_calls self a). phase e = 1"
  "\<forall>e\<in>set (lora_calls a). phase e = 2"
  "\<forall>e\<in>set (vae_calls a). phase e = 3"
  by (auto simp: pipeline_calls_def lora_calls_def vae_calls_def)

lemma constructed_filters:
  assumes "constructed a es"
  shows "filter (\<lambda>e. phase e = 1) es = pipeline_calls (init_fields a) a"
    and "filter (\<lambda>e. phase e = 2) es = lora_calls a"
    and "filter (\<lambda>e. phase e = 3) es = vae_calls a"
    and "take 1 (filter (\<lambda>e. phase e = 4) es) = accel_first a"
    and "filter (\<lambda>e. phase e = 5) es = [Prepare [] 50 (Some 2)]"
    and "Prepare [] 50 (Some 2) \<in> set es"
proof -
  from assms obtain es4 es6 where
    es: "es = pipeline_calls (init_fields a) a @ lora_calls a @ vae_calls a @ es4
                      @ [Prepare [] 50 (Some 2)] @ es6"
    and 4: "\<forall>e\<in>set es4. phase e = 4" and f: "take 1 es4 = accel_first a"
    and 6: "\<forall>e\<in>set es6. phase e = 6"
    unfolding constructed_def by blast
  note fs = filter_phase[OF phase_calls(1)[of "init_fields a" a]] filter_phase[OF phase_calls(2)[of a]]
    filter_phase[OF phase_calls(3)[of a]] filter_phase[OF 4] filter_phase[OF 6]
  show "filter (\<lambda>e. phase e = 1) es = pipeline_calls (init_fields a) a"
    unfolding es by (simp add: fs)
  show "filter (\<lambda>e. phase e = 2) es = lora_calls a"
    unfolding es by (simp add: fs)
  show "filter (\<lambda>e. phase e = 3) es = vae_calls a"
    unfolding es by (simp add: fs)
  show "take 1 (filter (\<lambda>e. phase e = 4) es) = accel_first a"
    unfolding es using f by (simp add: fs)
  show "filter (\<lambda>e. phase e = 5) es = [Prepare [] 50 (Some 2)]"
    unfolding es by (simp add: fs)
  show "Prepare [] 50 (Some 2) \<in> set es"
    unfolding es by simp
qed

text \<open>
  Claim C4. In every world the library calls made while the wrapper is constructed occur
  in the order of the construction sequence: no call of a later step precedes a call of an
  earlier step, also when a call raises and construction stops early. A construction that
  returns has called \<^verbatim>\<open>stream.prepare\<close>. A construction that reaches \<^verbatim>\<open>stream.prepare\<close> has
  performed the steps before it: it has built the pipeline from \<^verbatim>\<open>model_id\<close>, moved it to the
  device and built the stream; it has loaded and fused the LCM-LoRA adapter exactly when
  \<^verbatim>\<open>use_lcm_lora\<close> holds and \<^verbatim>\<open>model_id\<close> does not contain \<^verbatim>\<open>"turbo"\<close>; it has loaded the
  tiny VAE exactly when \<^verbatim>\<open>use_tiny_vae\<close> holds; it has entered the acceleration step of the
  chosen mode, and made no acceleration call in any other mode; and it has called
  \<^verbatim>\<open>stream.prepare\<close> once, with the empty prompt, 50 steps and seed 2.
\<close>

theorem construction_order:
  "sorted (map phase (snd (init w a)))
   \<and> (fst (init w a) = Inr self' \<longrightarrow> Prepare [] 50 (Some 2) \<in> set (snd (init w a)))
   \<and> (Prepare [] 50 (Some 2) \<in> set (snd (init w a)) \<longrightarrow>
        filter (\<lambda>e. phase e = 1) (snd (init w a)) =
          [if endswith (model_id a) ''.safetensors'' then FromSingleFile (model_id a)
           else FromPretrained (model_id a),
           PipeTo (arg_device a) (arg_dtype a),
           NewStreamDiffusion (t_index_list a) (arg_dtype a) (arg_width a) (arg_height a)
             (is_drawing a) (arg_frame_buffer_size a)]
        \<and> filter (\<lambda>e. phase e = 2) (snd (init w a)) =
            (if use_lcm_lora a \<and> \<not> str_contains ''turbo'' (model_id a)
             then [LoadLcmLora (lcm_lora_id a), FuseLora] else [])
        \<and> filter (\<lambda>e. phase e = 3) (snd (init w a)) =
            (if use_tiny_vae a
             then [TinyFromPretrained (case vae_id a of None \<Rightarrow> ''madebyollin/taesd'' | Some v \<Rightarrow> v),
                   VaeTo]
             else [])
        \<and> take 1 (filter (\<lambda>e. phase e = 4) (snd (init w a))) =
            (if acceleration a = ''xformers'' then [EnableXformers]
             else if acceleration a = ''tensorrt'' then [ImportTensorrt]
             else if acceleration a = ''sfast'' then [ImportSfast]
             else [])
        \<and> filter (\<lambda>e. phase e = 5) (snd (init w a)) = [Prepare [] 50 (Some 2)])"
proof -
  have 1: "sorted (map phase (snd (init w a)))"
    using emits_init[OF phased_init_steps[unfolded phased_def]] by simp
  have 2: "Prepare [] 50 (Some 2) \<in> set (snd (init w a))" if "fst (init w a) = Inr self'"
    using constructed_filters(6)[OF constructed_init[of w a self']] that by simp
  have 3: "constructed a (snd (init w a))" if "Prepare [] 50 (Some 2) \<in> set (snd (init w a))"
    using constructed_init[of w a self'] that by simp
  show ?thesis
    using 1 2 constructed_filters(1-5)[OF 3]
    by (simp add: pipeline_calls_def lora_calls_def vae_calls_def accel_first_def lora_wanted_def
        init_fields_def)
qed

theorem construction_order_witness:
  "fst (init quiet_world example_args) = Inr example_wrapper
   \<and> Prepare [] 50 (Some 2) \<in> set (snd (init quiet_world example_args))
   \<and> filter (\<lambda>e. phase e = 1) (snd (init quiet_world example_args)) =
       [FromPretrained ''sd'', PipeTo ''cuda'' ''float16'',
        NewStreamDiffusion [32, 45] ''float16'' 512 512 True 1]
   \<and> filter (\<lambda>e. phase e = 2) (snd (init quiet_world example_args)) = [LoadLcmLora None, FuseLora]
   \<and> filter (\<lambda>e. phase e = 3) (snd (init quiet_world example_args)) =
       [TinyFromPretrained ''madebyollin/taesd'', VaeTo]
   \<and> take 1 (filter (\<lambda>e. phase e = 4) (snd (init quiet_world example_args))) = [ImportTensorrt]
   \<and> filter (\<lambda>e. phase e = 5) (snd (init quiet_world example_args)) = [Prepare [] 50 (Some 2)]"
proof -
  note t = construction_order[of quiet_world example_args example_wrapper]
  have f: "arg_device example_args = ''cuda''" "arg_dtype example_args = ''float16''"
    "arg_width example_args = 512" "arg_height example_args = 512"
    "arg_frame_buffer_size example_args = 1"
    by (simp_all add: example_args_def)
  from t init_example_result
  have p: "Prepare [] 50 (Some 2) \<in> set (snd (init quiet_world example_args))" by blast
  with t init_example_result show ?thesis
    by (simp add: example_fields f endswith_def)
qed

text \<open>
  Claim C9. A tensor given to \<^verbatim>\<open>img2img\<close> is passed to the stream unchanged, and the
  stream call is the first call made: no image is opened, converted or resized, nothing is
  preprocessed or moved. For a PIL image, every stream call receives the tensor obtained by
  converting the image to RGB, resizing it to \<^verbatim>\<open>(self.width, self.height)\<close>, preprocessing it
  with the stream's image processor and moving it to \<^verbatim>\<open>self.device\<close> with \<^verbatim>\<open>self.dtype\<close>; the
  calls before the stream call are exactly these, in this order. For a file path the image is
  opened first, and converted and resized by both \<^verbatim>\<open>if\<close> statements of \<^verbatim>\<open>preprocess_image\<close>.
  Whenever \<^verbatim>\<open>img2img\<close> returns, the stream has been called with that tensor. In a world
  where no library call raises, the calls of \<^verbatim>\<open>img2img\<close> are exactly the preprocessing
  calls of the input, the stream call and the two calls of \<^verbatim>\<open>postprocess_image\<close>.
\<close>

theorem img2img_input_handling:
  "take 1 (new_calls (img2img w (Tensor t)) s) = [StreamCall (Tensor t)]
   \<and> prefix (drop 1 (new_calls (img2img w (Tensor t)) s))
        [TensorCpu (StreamCallOut (Tensor t)), PostprocessImage (Cpu (StreamCallOut (Tensor t))) ''pil'']
   \<and> (StreamCall y \<in> set (new_calls (img2img w (Pil i)) s) \<longrightarrow>
      y = Tensor (on_device (obj s) (processed (obj s) (Pil (rgb_resized (obj s) i))))
      \<and> takeWhile (\<lambda>e. e \<noteq> StreamCall y) (new_calls (img2img w (Pil i)) s) =
          [ImageConvert i ''RGB'',
           ImageResize (Converted ''RGB'' i) (width (obj s)) (height (obj s)),
           ProcessorPreprocess (Pil (rgb_resized (obj s) i)) (height (obj s)) (width (obj s)),
           TensorTo (processed (obj s) (Pil (rgb_resized (obj s) i))) (device (obj s)) (dtype (obj s))])
   \<and> (fst (img2img w (Pil i) s) = Inr r \<longrightarrow>
        StreamCall (Tensor (on_device (obj s) (processed (obj s) (Pil (rgb_resized (obj s) i)))))
          \<in> set (new_calls (img2img w (Pil i)) s))
   \<and> (StreamCall z \<in> set (new_calls (img2img w (Str p)) s) \<longrightarrow>
      z = Tensor (on_device (obj s) (processed (obj s)
                   (Pil (rgb_resized (obj s) (rgb_resized (obj s) (Opened p))))))
      \<and> takeWhile (\<lambda>e. e \<noteq> StreamCall z) (new_calls (img2img w (Str p)) s) =
          [ImageOpen p,
           ImageConvert (Opened p) ''RGB'',
           ImageResize (Converted ''RGB'' (Opened p)) (width (obj s)) (height (obj s)),
           ImageConvert (rgb_resized (obj s) (Opened p)) ''RGB'',
           ImageResize (Converted ''RGB'' (rgb_resized (obj s) (Opened p)))
             (width (obj s)) (height (obj s)),
           ProcessorPreprocess (Pil (rgb_resized (obj s) (rgb_resized (obj s) (Opened p))))
             (height (obj s)) (width (obj s)),
           TensorTo (processed (obj s) (Pil (rgb_resized (obj s) (rgb_resized (obj s) (Opened p)))))
             (device (obj s)) (dtype (obj s))])
   \<and> (fst (img2img w (Str p) s) = Inr q \<longrightarrow>
        StreamCall (Tensor (on_device (obj s) (processed (obj s)
                     (Pil (rgb_resized (obj s) (rgb_resized (obj s) (Opened p)))))))
          \<in> set (new_calls (img2img w (Str p)) s))
   \<and> ((\<forall>e. raises w e = None) \<longrightarrow>
        new_calls (img2img w (Tensor t)) s =
          [StreamCall (Tensor t), TensorCpu (StreamCallOut (Tensor t)),
           PostprocessImage (Cpu (StreamCallOut (Tensor t))) ''pil'']
        \<and> new_calls (img2img w (Pil i)) s =
          [ImageConvert i ''RGB'',
           ImageResize (Converted ''RGB'' i) (width (obj s)) (height (obj s)),
           ProcessorPreprocess (Pil (rgb_resized (obj s) i)) (height (obj s)) (width (obj s)),
           TensorTo (processed (obj s) (Pil (rgb_resized (obj s) i))) (device (obj s)) (dtype (obj s)),
           StreamCall (Tensor (on_device (obj s) (processed (obj s) (Pil (rgb_resized (obj s) i))))),
           TensorCpu (StreamCallOut
             (Tensor (on_device (obj s) (processed (obj s) (Pil (rgb_resized (obj s) i)))))),
           PostprocessImage (Cpu (StreamCallOut
             (Tensor (on_device (obj s) (processed (obj s) (Pil (rgb_resized (obj s) i))))))) ''pil'']
        \<and> new_calls (img2img w (Str p)) s =
          [ImageOpen p,
           ImageConvert (Opened p) ''RGB'',
           ImageResize (Converted ''RGB'' (Opened p)) (width (obj s)) (height (obj s)),
           ImageConvert (rgb_resized (obj s) (Opened p)) ''RGB'',
           ImageResize (Converted ''RGB'' (rgb_resized (obj s) (Opened p)))
             (width (obj s)) (height (obj s)),
           ProcessorPreprocess (Pil (rgb_resized (obj s) (rgb_resized (obj s) (Opened p))))
             (height (obj s)) (width (obj s)),
           TensorTo (processed (obj s) (Pil (rgb_resized (obj s) (rgb_resized (obj s) (Opened p)))))
             (device (obj s)) (dtype (obj s)),
           StreamCall (Tensor (on_device (obj s) (processed (obj s)
             (Pil (rgb_resized (obj s) (rgb_resized (obj s) (Opened p))))))),
           TensorCpu (StreamCallOut (Tensor (on_device (obj s) (processed (obj s)
             (Pil (rgb_resized (obj s) (rgb_resized (obj s) (Opened p)))))))),
           PostprocessImage (Cpu (StreamCallOut (Tensor (on_device (obj s) (processed (obj s)
             (Pil (rgb_resized (obj s) (rgb_resized (obj s) (Opened p))))))))) ''pil''])"
  using img2img_tensor[of w t s] img2img_pil[of y w i s r] img2img_str[of z w p s q]
    img2img_quiet(1)[where w = w and t = t and s = s]
    img2img_quiet(2)[where w = w and i = i and s = s]
    img2img_quiet(3)[where w = w and p = p and s = s]
  by blast

lemma example_state_fields:
  "\<And>t. on_device (obj example_state) t = MovedTo ''cuda'' ''float16'' t"
  "\<And>i. rgb_resized (obj example_state) i = Resized 512 512 (Converted ''RGB'' i)"
  "\<And>v. processed (obj example_state) v = Preprocessed v 512 512"
  "width (obj example_state) = 512" "height (obj example_state) = 512"
  "device (obj example_state) = ''cuda''" "dtype (obj example_state) = ''float16''"
  by (simp_all add: on_device_def processed_def rgb_resized_def example_wrapper_def
      example_state_def)

lemma example_img2img_pil:
  "fst (img2img quiet_world (Pil (UserImage 0)) example_state)
     = Inr (Tuple2 (SingleImage (PostImage (Cpu (StreamCallOut pil_input_tensor)) 0))
              (SkipProb pil_input_tensor))"
  by (simp add: img2img_def preprocess_image_def postprocess_image_def reading_def bind_prog_def
      call_def ret_def raise_def decoded_def example_wrapper_def quiet_world_def example_state_def
      pil_input_tensor_def)

lemma example_img2img_path:
  "fst (img2img quiet_world (Str ''a.png'') example_state)
     = Inr (Tuple2 (SingleImage (PostImage (Cpu (StreamCallOut path_input_tensor)) 0))
              (SkipProb path_input_tensor))"
  by (simp add: img2img_def preprocess_image_def postprocess_image_def reading_def bind_prog_def
      call_def ret_def raise_def decoded_def example_wrapper_def quiet_world_def example_state_def
      path_input_tensor_def)

theorem img2img_input_handling_witness:
  "(\<forall>e. raises quiet_world e = None)
   \<and> fst (img2img quiet_world (Pil (UserImage 0)) example_state)
       = Inr (Tuple2 (SingleImage (PostImage (Cpu (StreamCallOut pil_input_tensor)) 0))
                (SkipProb pil_input_tensor))
   \<and> StreamCall pil_input_tensor
       \<in> set (new_calls (img2img quiet_world (Pil (UserImage 0))) example_state)
   \<and> takeWhile (\<lambda>e. e \<noteq> StreamCall pil_input_tensor)
        (new_calls (img2img quiet_world (Pil (UserImage 0))) example_state)
      = [ImageConvert (UserImage 0) ''RGB'',
         ImageResize (Converted ''RGB'' (UserImage 0)) 512 512,
         ProcessorPreprocess (Pil (Resized 512 512 (Converted ''RGB'' (UserImage 0)))) 512 512,
         TensorTo (Preprocessed (Pil (Resized 512 512 (Converted ''RGB'' (UserImage 0)))) 512 512)
           ''cuda'' ''float16'']
   \<and> fst (img2img quiet_world (Str ''a.png'') example_state)
       = Inr (Tuple2 (SingleImage (PostImage (Cpu (StreamCallOut path_input_tensor)) 0))
                (SkipProb path_input_tensor))
   \<and> StreamCall path_input_tensor
       \<in> set (new_calls (img2img quiet_world (Str ''a.png'')) example_state)
   \<and> takeWhile (\<lambda>e. e \<noteq> StreamCall path_input_tensor)
        (new_calls (img2img quiet_world (Str ''a.png'')) example_state)
      = [ImageOpen ''a.png'',
         ImageConvert (Opened ''a.png'') ''RGB'',
         ImageResize (Converted ''RGB'' (Opened ''a.png'')) 512 512,
         ImageConvert (Resized 512 512 (Converted ''RGB'' (Opened ''a.png''))) ''RGB'',
         ImageResize (Converted ''RGB'' (Resized 512 512 (Converted ''RGB'' (Opened ''a.png''))))
           512 512,
         ProcessorPreprocess
           (Pil (Resized 512 512 (Converted ''RGB''
              (Resized 512 512 (Converted ''RGB'' (Opened ''a.png'')))))) 512 512,
         TensorTo
           (Preprocessed
              (Pil (Resized 512 512 (Converted ''RGB''
                 (Resized 512 512 (Converted ''RGB'' (Opened ''a.png'')))))) 512 512)
           ''cuda'' ''float16'']
   \<and> new_calls (img2img quiet_world (Tensor (UserTensor 0))) example_state =
        [StreamCall (Tensor (UserTensor 0)), TensorCpu (StreamCallOut (Tensor (UserTensor 0))),
         PostprocessImage (Cpu (StreamCallOut (Tensor (UserTensor 0)))) ''pil'']"
proof -
  note t = img2img_input_handling[of quiet_world "UserTensor 0" example_state
      pil_input_tensor "UserImage 0"
      "Tuple2 (SingleImage (PostImage (Cpu (StreamCallOut pil_input_tensor)) 0))
         (SkipProb pil_input_tensor)"
      path_input_tensor "''a.png''"
      "Tuple2 (SingleImage (PostImage (Cpu (StreamCallOut path_input_tensor)) 0))
         (SkipProb path_input_tensor)",
      unfolded example_state_fields,
      folded pil_input_tensor_def path_input_tensor_def]
  have q: "\<forall>e. raises quiet_world e = None" by (simp add: quiet_world_def)
  from t example_img2img_pil
  have m1: "StreamCall pil_input_tensor
       \<in> set (new_calls (img2img quiet_world (Pil (UserImage 0))) example_state)"
    by blast
  from t example_img2img_path
  have m2: "StreamCall path_input_tensor
       \<in> set (new_calls (img2img quiet_world (Str ''a.png'')) example_state)"
    by blast
  from t q m1 m2 example_img2img_pil example_img2img_path show ?thesis
    by blast
qed

end
